theory Spec2Isabelle
  imports Main
begin

section \<open>Values, records and data frames\<close>

text \<open>
  The script \<^verbatim>\<open>Working_OneAPICall.py\<close> receives two lists of JSON objects
  (\<^verbatim>\<open>league_entries\<close> and \<^verbatim>\<open>standings\<close>), loads each into a data frame and
  works on the frames column by column. A cell holds a scalar JSON value: null (Python
  \<^verbatim>\<open>None\<close>), an integer (unbounded, as in Python), a string, or a number that is not
  an integer the embedding computes with, kept as the literal that denotes it
  (\<open>FloatV\<close>: a fraction, an exponent form, an infinity, or an integer too large to be
  exact as a float). \<open>NaN\<close> is the missing-value marker that the data frame constructor
  puts where a record lacks a key. No arithmetic is done on a \<open>FloatV\<close>.
\<close>

datatype cell = NaN | NoneV | IntV int | FloatV string | StrV string

type_synonym row = "(string \<times> cell) list"

type_synonym json_obj = "(string \<times> cell) list"

record dataframe =
  columns :: "string list"
  rows :: "row list"

text \<open>
  The exceptions of the script. \<open>Outside_embedding\<close> is not one of them: it marks the
  point where a run leaves what is modelled here, because the library's result there
  depends on the type it infers for a column, on its version, or on floating point.
  Nothing is said about the script on a run that ends in it.
\<close>

datatype py_error =
    KeyError "string list"
  | JSONDecodeError
  | ChartFieldError string
  | Outside_embedding string

definition cell_of :: "row \<Rightarrow> string \<Rightarrow> cell" where
  "cell_of r c = (case map_of r c of None \<Rightarrow> NaN | Some v \<Rightarrow> v)"

fun set_cell :: "string \<Rightarrow> cell \<Rightarrow> row \<Rightarrow> row" where
  "set_cell c v [] = [(c, v)]"
| "set_cell c v ((k, w) # r) = (if k = c then (k, v) # r else (k, w) # set_cell c v r)"

text \<open>
  \<^verbatim>\<open>pd.DataFrame(records)\<close>: the columns are the keys of the records in order of first
  appearance; a record that lacks a key holds \<^verbatim>\<open>NaN\<close> there. The empty list gives a
  frame with no columns. (The keys of one JSON object are distinct.) A cell keeps the
  number or string of the record; the type that the library infers for the column
  (integers, floats, Python objects) is accounted for in the operations that depend on it,
  \<open>astype_str\<close> and \<open>to_numeric\<close> below.
\<close>

definition first_seen :: "string list \<Rightarrow> string list" where
  "first_seen xs = rev (remdups (rev xs))"

definition DataFrame :: "json_obj list \<Rightarrow> dataframe" where
  "DataFrame recs =
     (let cols = first_seen (concat (map (map fst) recs))
      in \<lparr>columns = cols, rows = map (\<lambda>r. map (\<lambda>c. (c, cell_of r c)) cols) recs\<rparr>)"

text \<open>\<^verbatim>\<open>df[c]\<close> raises \<^verbatim>\<open>KeyError\<close> when \<^verbatim>\<open>c\<close> is not a column.\<close>

definition getitem :: "dataframe \<Rightarrow> string \<Rightarrow> py_error + cell list" where
  "getitem df c =
     (if c \<in> set (columns df) then Inr (map (\<lambda>r. cell_of r c) (rows df))
      else Inl (KeyError [c]))"

text \<open>\<^verbatim>\<open>df[c] = values\<close> for a column that exists: the cells are replaced row by row.\<close>

definition setitem :: "dataframe \<Rightarrow> string \<Rightarrow> cell list \<Rightarrow> dataframe" where
  "setitem df c vs = df\<lparr>rows := map (\<lambda>(r, v). set_cell c v r) (zip (rows df) vs)\<rparr>"

text \<open>\<^verbatim>\<open>df[c] = f(df[c])\<close>: the read raises when the column is missing, then the
  conversion runs on the whole column, then the write replaces the column.\<close>

definition assign_column ::
  "dataframe \<Rightarrow> string \<Rightarrow> (cell list \<Rightarrow> py_error + cell list) \<Rightarrow> py_error + dataframe" where
  "assign_column df c f =
     (case getitem df c of
        Inl e \<Rightarrow> Inl e
      | Inr vs \<Rightarrow> (case f vs of Inl e \<Rightarrow> Inl e | Inr ws \<Rightarrow> Inr (setitem df c ws)))"

text \<open>\<^verbatim>\<open>df[[c1, ..., cn]]\<close> raises \<^verbatim>\<open>KeyError\<close> naming the missing columns.\<close>

definition getitem_list :: "dataframe \<Rightarrow> string list \<Rightarrow> py_error + dataframe" where
  "getitem_list df cs =
     (case filter (\<lambda>c. c \<notin> set (columns df)) cs of
        [] \<Rightarrow> Inr \<lparr>columns = cs, rows = map (\<lambda>r. map (\<lambda>c. (c, cell_of r c)) cs) (rows df)\<rparr>
      | missing \<Rightarrow> Inl (KeyError missing))"

text \<open>\<^verbatim>\<open>df.empty\<close>: one of the axes has length 0.\<close>

definition df_empty :: "dataframe \<Rightarrow> bool" where
  "df_empty df = (rows df = [] \<or> columns df = [])"

text \<open>\<^verbatim>\<open>df[df[c].isin(ids)]\<close>: the rows whose cell in column \<^verbatim>\<open>c\<close> is a member of
  \<^verbatim>\<open>ids\<close>, in their order.\<close>

definition isin_filter :: "dataframe \<Rightarrow> string \<Rightarrow> cell set \<Rightarrow> dataframe" where
  "isin_filter df c ids = df\<lparr>rows := filter (\<lambda>r. cell_of r c \<in> ids) (rows df)\<rparr>"

subsection \<open>Conversion to strings\<close>

definition digit_chars :: string where
  "digit_chars = ''0123456789''"

function str_nat :: "nat \<Rightarrow> string" where
  "str_nat n = (if n < 10 then [digit_chars ! n] else str_nat (n div 10) @ [digit_chars ! (n mod 10)])"
  by pat_completeness auto
termination
  by (relation "measure id") auto

declare str_nat.simps [simp del]

definition str_int :: "int \<Rightarrow> string" where
  "str_int i = (if i < 0 then CHR ''-'' # str_nat (nat (- i)) else str_nat (nat i))"

text \<open>Python's \<^verbatim>\<open>str\<close> on an integer and on a string. It is used on keys only, and
  only where \<open>typed_key\<close> holds.\<close>

fun py_str :: "cell \<Rightarrow> string" where
  "py_str (IntV n) = str_int n"
| "py_str (StrV s) = s"

text \<open>
  \<^verbatim>\<open>column.astype(str)\<close>. When every record has a key that is an integer of 64 bits
  or a string, the library holds the column as integers or as Python objects, and the
  conversion is Python's \<^verbatim>\<open>str\<close> of each element. A column with a null, a missing or a
  fractional key is held as floats (so that 1 prints as \<^verbatim>\<open>1.0\<close>) and its missing
  entries are converted differently by different versions of the library: there the
  embedding stops.
\<close>

definition int64 :: "int \<Rightarrow> bool" where
  "int64 n = (- (2 ^ 63) \<le> n \<and> n < 2 ^ 63)"

fun typed_key :: "cell \<Rightarrow> bool" where
  "typed_key (IntV n) = int64 n"
| "typed_key (StrV s) = True"
| "typed_key v = False"

definition astype_str :: "cell list \<Rightarrow> py_error + cell list" where
  "astype_str vs =
     (if list_all typed_key vs then Inr (map (\<lambda>v. StrV (py_str v)) vs)
      else Inl (Outside_embedding ''key column with a null, missing or fractional key''))"

subsection \<open>Numeric coercion\<close>

text \<open>
  \<^verbatim>\<open>pd.to_numeric(column, errors='coerce')\<close> turns every element that is not a number
  into \<^verbatim>\<open>NaN\<close> instead of raising, and \<^verbatim>\<open>fillna(0)\<close> replaces the missing values
  by 0. The library reads a string as: blanks, an optional sign, digits, an optional
  point with digits, an optional exponent (\<^verbatim>\<open>e\<close> or \<^verbatim>\<open>E\<close>, optional sign, at least
  one digit), blanks; at least one digit must stand before the exponent. Apart from that
  it accepts the words \<^verbatim>\<open>inf\<close> and \<^verbatim>\<open>infinity\<close>, with an optional sign, in any
  case. A string read without point and exponent is an integer, any other accepted
  string a float.
\<close>

definition is_digit :: "char \<Rightarrow> bool" where
  "is_digit c = (c \<in> set digit_chars)"

definition is_space :: "char \<Rightarrow> bool" where
  "is_space c = (c \<in> set [CHR '' '', CHR 0x09, CHR 0x0A, CHR 0x0B, CHR 0x0C, CHR 0x0D])"

definition digit_val :: "char \<Rightarrow> int" where
  "digit_val c = of_char c - 48"

definition digits_val :: "string \<Rightarrow> int" where
  "digits_val s = foldl (\<lambda>n c. 10 * n + digit_val c) 0 s"

definition lower :: "char \<Rightarrow> char" where
  "lower c =
     (if (65::nat) \<le> of_char c \<and> of_char c \<le> (90::nat)
      then char_of (of_char c + (32::nat)) else c)"

definition inf_words :: "string list" where
  "inf_words = [''inf'', ''+inf'', ''-inf'', ''infinity'', ''+infinity'', ''-infinity'']"

fun is_negative :: "string \<Rightarrow> bool" where
  "is_negative [] = False"
| "is_negative (c # cs) = (c = CHR ''-'')"

fun drop_sign :: "string \<Rightarrow> string" where
  "drop_sign [] = []"
| "drop_sign (c # cs) = (if c = CHR ''-'' \<or> c = CHR ''+'' then cs else c # cs)"

text \<open>The fraction after the integer digits: its digits and what follows them.\<close>

fun fraction :: "string \<Rightarrow> (string \<times> string) option" where
  "fraction [] = None"
| "fraction (c # cs) =
     (if c = CHR ''.'' then Some (takeWhile is_digit cs, dropWhile is_digit cs) else None)"

text \<open>The exponent after the mantissa: its digits and what follows them.\<close>

fun exponent :: "string \<Rightarrow> (string \<times> string) option" where
  "exponent [] = None"
| "exponent (c # cs) =
     (if c = CHR ''e'' \<or> c = CHR ''E''
      then Some (takeWhile is_digit (drop_sign cs), dropWhile is_digit (drop_sign cs))
      else None)"

datatype literal = Int_literal int | Float_literal | Not_numeric

definition read_number :: "string \<Rightarrow> literal" where
  "read_number s =
     (let p = dropWhile is_space s;
          body = drop_sign p;
          int_digits = takeWhile is_digit body;
          after_int = dropWhile is_digit body;
          frac = fraction after_int;
          frac_digits = (case frac of None \<Rightarrow> [] | Some (ds, rest) \<Rightarrow> ds);
          after_frac = (case frac of None \<Rightarrow> after_int | Some (ds, rest) \<Rightarrow> rest);
          ex = exponent after_frac;
          exp_ok = (case ex of None \<Rightarrow> True | Some (ds, rest) \<Rightarrow> ds \<noteq> []);
          after_exp = (case ex of None \<Rightarrow> after_frac | Some (ds, rest) \<Rightarrow> rest)
      in if int_digits @ frac_digits \<noteq> [] \<and> exp_ok \<and> dropWhile is_space after_exp = [] then
           (if frac = None \<and> ex = None
            then Int_literal ((if is_negative p then - 1 else 1) * digits_val int_digits)
            else Float_literal)
         else if map lower s \<in> set inf_words then Float_literal
         else Not_numeric)"

text \<open>
  The value of one element. An integer up to \<open>2 ^ 53\<close> in absolute value is the same
  number whether the column ends up as integers or as floats; beyond that the library
  may round it, and it is kept as a literal. A float is kept as its literal.
\<close>

definition exact_int :: "int \<Rightarrow> bool" where
  "exact_int n = (- (2 ^ 53) \<le> n \<and> n \<le> 2 ^ 53)"

fun to_numeric :: "cell \<Rightarrow> cell" where
  "to_numeric (IntV n) = (if exact_int n then IntV n else FloatV (str_int n))"
| "to_numeric (FloatV s) = FloatV s"
| "to_numeric (StrV s) =
     (case read_number s of
        Int_literal n \<Rightarrow> if exact_int n then IntV n else FloatV s
      | Float_literal \<Rightarrow> FloatV s
      | Not_numeric \<Rightarrow> NaN)"
| "to_numeric NoneV = NaN"
| "to_numeric NaN = NaN"

fun fillna0 :: "cell \<Rightarrow> cell" where
  "fillna0 NaN = IntV 0"
| "fillna0 NoneV = IntV 0"
| "fillna0 v = v"

definition coerce_total :: "cell \<Rightarrow> cell" where
  "coerce_total v = fillna0 (to_numeric v)"

fun is_number :: "cell \<Rightarrow> bool" where
  "is_number (IntV n) = True"
| "is_number (FloatV s) = True"
| "is_number v = False"

text \<open>Line 85: \<^verbatim>\<open>merged_df['total'] = pd.to_numeric(merged_df['total'], errors='coerce').fillna(0)\<close>.\<close>

definition normalize_total :: "dataframe \<Rightarrow> py_error + dataframe" where
  "normalize_total merged_df =
     assign_column merged_df ''total'' (\<lambda>vs. Inr (map coerce_total vs))"

subsection \<open>The left join\<close>

text \<open>
  \<^verbatim>\<open>left.merge(right, left_on=l, right_on=r, how='left')\<close>: every left row is kept, in
  order; it is paired with each right row whose key equals its own, in the right frame's
  order, and with \<^verbatim>\<open>NaN\<close> in the right columns when there is none. Both key columns
  stay; a column name that occurs on both sides gets the suffix \<^verbatim>\<open>_x\<close> on the left and
  \<^verbatim>\<open>_y\<close> on the right.
\<close>

definition left_name :: "dataframe \<Rightarrow> string \<Rightarrow> string" where
  "left_name right c = (if c \<in> set (columns right) then c @ ''_x'' else c)"

definition right_name :: "dataframe \<Rightarrow> string \<Rightarrow> string" where
  "right_name left c = (if c \<in> set (columns left) then c @ ''_y'' else c)"

definition join_rows :: "dataframe \<Rightarrow> dataframe \<Rightarrow> row \<Rightarrow> row \<Rightarrow> row" where
  "join_rows left right l r =
     map (\<lambda>(k, v). (left_name right k, v)) l @ map (\<lambda>(k, v). (right_name left k, v)) r"

definition unmatched_row :: "dataframe \<Rightarrow> dataframe \<Rightarrow> row \<Rightarrow> row" where
  "unmatched_row left right l =
     map (\<lambda>(k, v). (left_name right k, v)) l @ map (\<lambda>c. (right_name left c, NaN)) (columns right)"

definition matches :: "dataframe \<Rightarrow> string \<Rightarrow> string \<Rightarrow> row \<Rightarrow> row list" where
  "matches right left_on right_on l =
     filter (\<lambda>r. cell_of r right_on = cell_of l left_on) (rows right)"

definition merged_columns :: "dataframe \<Rightarrow> dataframe \<Rightarrow> string list" where
  "merged_columns left right =
     map (left_name right) (columns left) @ map (right_name left) (columns right)"

definition merge_left :: "dataframe \<Rightarrow> dataframe \<Rightarrow> string \<Rightarrow> string \<Rightarrow> dataframe" where
  "merge_left left right left_on right_on =
     \<lparr>columns = merged_columns left right,
      rows = concat (map (\<lambda>l. case matches right left_on right_on l of
                                 [] \<Rightarrow> [unmatched_row left right l]
                               | ms \<Rightarrow> map (join_rows left right l) ms) (rows left))\<rparr>"

text \<open>The inner join, \<^verbatim>\<open>how='inner'\<close>, for comparison: only the matched pairs.\<close>

definition merge_inner :: "dataframe \<Rightarrow> dataframe \<Rightarrow> string \<Rightarrow> string \<Rightarrow> dataframe" where
  "merge_inner left right left_on right_on =
     \<lparr>columns = merged_columns left right,
      rows = concat (map (\<lambda>l. map (join_rows left right l) (matches right left_on right_on l))
                      (rows left))\<rparr>"

section \<open>The script\<close>

text \<open>What the page shows, in order: one event for each call of the UI library.
  \<open>St_write_player first last\<close> is the line \<^verbatim>\<open>f"Player: {first} {last}"\<close>.\<close>

datatype event =
    St_title string
  | St_write string
  | St_write_df dataframe
  | St_subheader string
  | St_warning string "cell set"
  | St_error string
  | St_dataframe dataframe
  | St_altair_chart string
  | St_metric string cell
  | St_write_player cell cell

subsection \<open>Lines 48 to 68: identifier sets, warnings, filtering\<close>

definition standings_ids :: "dataframe \<Rightarrow> cell set" where
  "standings_ids standings_df = set (map (\<lambda>r. cell_of r ''league_entry'') (rows standings_df))"

definition entries_ids :: "dataframe \<Rightarrow> cell set" where
  "entries_ids league_entries_df = set (map (\<lambda>r. cell_of r ''id'') (rows league_entries_df))"

definition missing_in_entries :: "dataframe \<Rightarrow> dataframe \<Rightarrow> cell set" where
  "missing_in_entries standings_df league_entries_df =
     standings_ids standings_df - entries_ids league_entries_df"

definition missing_in_standings :: "dataframe \<Rightarrow> dataframe \<Rightarrow> cell set" where
  "missing_in_standings standings_df league_entries_df =
     entries_ids league_entries_df - standings_ids standings_df"

definition not_in_entries_message :: string where
  "not_in_entries_message = ''IDs in standings but not in league entries: ''"

definition not_in_standings_message :: string where
  "not_in_standings_message = ''IDs in league entries but not in standings: ''"

definition mismatch_warnings :: "dataframe \<Rightarrow> dataframe \<Rightarrow> event list" where
  "mismatch_warnings standings_df league_entries_df =
     (if missing_in_entries standings_df league_entries_df \<noteq> {}
      then [St_warning not_in_entries_message
              (missing_in_entries standings_df league_entries_df)]
      else []) @
     (if missing_in_standings standings_df league_entries_df \<noteq> {}
      then [St_warning not_in_standings_message
              (missing_in_standings standings_df league_entries_df)]
      else [])"

definition valid_standings_df :: "dataframe \<Rightarrow> dataframe \<Rightarrow> dataframe" where
  "valid_standings_df standings_df league_entries_df =
     isin_filter standings_df ''league_entry'' (entries_ids league_entries_df)"

definition valid_entries_df :: "dataframe \<Rightarrow> dataframe \<Rightarrow> dataframe" where
  "valid_entries_df standings_df league_entries_df =
     isin_filter league_entries_df ''id'' (standings_ids standings_df)"

definition empty_errors :: "dataframe \<Rightarrow> dataframe \<Rightarrow> event list" where
  "empty_errors valid_standings valid_entries =
     (if df_empty valid_standings
      then [St_error ''No valid standings data available after filtering.''] else []) @
     (if df_empty valid_entries
      then [St_error ''No valid league entries data available after filtering.''] else [])"

subsection \<open>Lines 70 to 85: the merge and the numeric total\<close>

definition entry_fields :: "string list" where
  "entry_fields = [''id'', ''entry_name'', ''joined_time'', ''player_first_name'', ''player_last_name'']"

text \<open>The result is the table \<^verbatim>\<open>merged_df\<close> as it stands after line 85, when the script
  gets there; \<open>None\<close> when no table is produced.\<close>

definition merge_section :: "dataframe \<Rightarrow> dataframe \<Rightarrow> event list \<times> (py_error + dataframe option)" where
  "merge_section valid_standings valid_entries =
     (if \<not> df_empty valid_standings \<and> \<not> df_empty valid_entries then
        (case getitem_list valid_entries entry_fields of
           Inl e \<Rightarrow> ([], Inl e)
         | Inr right \<Rightarrow>
             (let merged_df = merge_left valid_standings right ''league_entry'' ''id'' in
              if df_empty merged_df then
                ([St_error ''Merged Data is empty after attempting to merge valid entries and standings.''],
                 Inr None)
              else
                ([St_write ''## Merged Data'', St_write_df merged_df],
                 (case normalize_total merged_df of
                    Inl e \<Rightarrow> Inl e
                  | Inr normalized \<Rightarrow> Inr (Some normalized)))))
      else ([], Inr None))"

text \<open>Lines 35 to 46: the two frames, shown raw, then the join keys converted to strings,
  the standings' key first.\<close>

definition raw_events :: "json_obj list \<Rightarrow> json_obj list \<Rightarrow> event list" where
  "raw_events entries stands =
     [St_write ''## Raw League Entries Data'', St_write_df (DataFrame entries),
      St_write ''## Raw Standings Data'', St_write_df (DataFrame stands)]"

definition coerce_keys :: "json_obj list \<Rightarrow> json_obj list \<Rightarrow> py_error + (dataframe \<times> dataframe)" where
  "coerce_keys entries stands =
     (case assign_column (DataFrame stands) ''league_entry'' astype_str of
        Inl e \<Rightarrow> Inl e
      | Inr standings_df \<Rightarrow>
          (case assign_column (DataFrame entries) ''id'' astype_str of
             Inl e \<Rightarrow> Inl e
           | Inr league_entries_df \<Rightarrow> Inr (standings_df, league_entries_df)))"

text \<open>Lines 35 to 85. The first component lists what was shown up to the point where the
  script stopped or the table was ready.\<close>

definition reconcile :: "json_obj list \<Rightarrow> json_obj list \<Rightarrow> event list \<times> (py_error + dataframe option)" where
  "reconcile entries stands =
     (case coerce_keys entries stands of
        Inl e \<Rightarrow> (raw_events entries stands, Inl e)
      | Inr (standings_df, league_entries_df) \<Rightarrow>
          (let valid_standings = valid_standings_df standings_df league_entries_df;
               valid_entries = valid_entries_df standings_df league_entries_df;
               merged = merge_section valid_standings valid_entries
           in (raw_events entries stands @ mismatch_warnings standings_df league_entries_df
                 @ empty_errors valid_standings valid_entries @ fst merged,
               snd merged)))"

subsection \<open>Lines 87 to 174: tables, charts and the points leader\<close>

text \<open>After line 85 every cell of the \<^verbatim>\<open>total\<close> column is a number. The maximum and
  its position are computed here on integer totals; \<open>render\<close> stops before them on a
  table that holds a total kept as a literal.\<close>

definition total_values :: "dataframe \<Rightarrow> int list" where
  "total_values df = map (\<lambda>r. case cell_of r ''total'' of IntV n \<Rightarrow> n | _ \<Rightarrow> 0) (rows df)"

definition integer_totals :: "dataframe \<Rightarrow> bool" where
  "integer_totals df =
     list_all (\<lambda>r. case cell_of r ''total'' of IntV n \<Rightarrow> True | _ \<Rightarrow> False) (rows df)"

text \<open>\<^verbatim>\<open>Series.max()\<close>; the empty series has no maximum (\<^verbatim>\<open>NaN\<close>, which is not
  \<^verbatim>\<open>> 0\<close>).\<close>

definition series_max :: "int list \<Rightarrow> int option" where
  "series_max xs = (case xs of [] \<Rightarrow> None | x # rest \<Rightarrow> Some (fold max rest x))"

text \<open>\<^verbatim>\<open>Series.idxmax()\<close> on the table's positional index: one scan that keeps the best
  position so far and moves on only to a strictly greater value.\<close>

fun argmax_scan :: "nat \<Rightarrow> int \<Rightarrow> nat \<Rightarrow> int list \<Rightarrow> nat" where
  "argmax_scan best bv i [] = best"
| "argmax_scan best bv i (x # xs) =
     (if bv < x then argmax_scan i x (Suc i) xs else argmax_scan best bv (Suc i) xs)"

definition idxmax :: "int list \<Rightarrow> nat option" where
  "idxmax xs = (case xs of [] \<Rightarrow> None | x # rest \<Rightarrow> Some (argmax_scan 0 x 1 rest))"

text \<open>Lines 168 and 169: the guard and the selected row.\<close>

definition leader_guard :: "dataframe \<Rightarrow> bool" where
  "leader_guard merged_df =
     (\<not> df_empty merged_df \<and>
      (case series_max (total_values merged_df) of None \<Rightarrow> False | Some m \<Rightarrow> 0 < m))"

definition top_scorer :: "dataframe \<Rightarrow> row option" where
  "top_scorer merged_df =
     (if leader_guard merged_df then
        (case idxmax (total_values merged_df) of
           None \<Rightarrow> None
         | Some i \<Rightarrow> Some (rows merged_df ! i))
      else None)"

definition no_leader_message :: string where
  "no_leader_message = ''No valid data available to determine the top scorer.''"

text \<open>Lines 168 to 174.\<close>

definition leader_section :: "dataframe \<Rightarrow> event list" where
  "leader_section merged_df =
     (case top_scorer merged_df of
        Some ts \<Rightarrow>
          [St_write ''## Points Leader'',
           St_metric ''Top Scorer'' (cell_of ts ''total''),
           St_write_player (cell_of ts ''player_first_name'') (cell_of ts ''player_last_name'')]
      | None \<Rightarrow> [St_write no_leader_message])"

text \<open>
  The charts are drawn by the plotting library from the finished table; each chart that
  is shown is one event. The library raises when a chart is shown whose encoding names a
  field that is not a column of the table. The three charts of lines 93 to 129 use
  \<^verbatim>\<open>entry_name\<close> and \<^verbatim>\<open>total\<close>, which line 89 has already required; the charts
  shown on lines 163, 164 and 165 use \<^verbatim>\<open>matches_won\<close>, \<^verbatim>\<open>matches_lost\<close> and
  \<^verbatim>\<open>matches_drawn\<close>. Nothing else of the plotting library is modelled.
\<close>

definition shown_fields :: "string list" where
  "shown_fields = [''entry_name'', ''player_first_name'', ''player_last_name'', ''total'']"

definition points_charts :: "event list" where
  "points_charts =
     [St_write ''## Total Points Distribution'', St_altair_chart ''Total Points Distribution'',
      St_write ''## Points Distribution Histogram'', St_altair_chart ''Histogram of Total Points'',
      St_write ''## Top 10 Scoring Teams'', St_altair_chart ''Top 10 Scoring Teams'',
      St_write ''## Win-Loss Record'']"

definition record_charts :: "event list" where
  "record_charts = [St_altair_chart ''Wins'', St_altair_chart ''Losses'', St_altair_chart ''Draws'']"

definition render :: "dataframe \<Rightarrow> event list \<times> py_error option" where
  "render merged_df =
     (case getitem_list merged_df shown_fields of
        Inl e \<Rightarrow> ([St_write ''## League Standings''], Some e)
      | Inr shown \<Rightarrow>
          (let first = [St_write ''## League Standings'', St_dataframe shown] @ points_charts in
           if ''matches_won'' \<notin> set (columns merged_df) then
             (first, Some (ChartFieldError ''matches_won''))
           else if ''matches_lost'' \<notin> set (columns merged_df) then
             (first @ take 1 record_charts, Some (ChartFieldError ''matches_lost''))
           else if ''matches_drawn'' \<notin> set (columns merged_df) then
             (first @ take 2 record_charts, Some (ChartFieldError ''matches_drawn''))
           else if \<not> integer_totals merged_df then
             (first @ record_charts,
              Some (Outside_embedding ''total that is not an exact integer''))
           else (first @ record_charts @ leader_section merged_df, None)))"

subsection \<open>Lines 14 to 30 and 175: fetching\<close>

text \<open>
  The body of a response that parses is the document
  \<^verbatim>\<open>{league: {name}, league_entries: [...], standings: [...]}\<close>; such a dictionary is
  not empty, so \<^verbatim>\<open>if data:\<close> is the test that data came back. The network is an
  argument: the function from a URL to the response it gives. The cache decorator
  replays the stored return value and the stored messages of a call, so it is not
  visible in one pass of the script.
\<close>

record api_data =
  league_name :: string
  league_entries :: "json_obj list"
  standings :: "json_obj list"

record response =
  status_code :: int
  json :: "py_error + api_data"

definition details_url :: "string \<Rightarrow> string" where
  "details_url league_id = ''https://draft.premierleague.com/api/league/'' @ league_id @ ''/details''"

definition fetch_failed_message :: string where
  "fetch_failed_message = ''Failed to fetch data. Please check the League ID.''"

definition fetch_data :: "(string \<Rightarrow> response) \<Rightarrow> string \<Rightarrow> event list \<times> (py_error + api_data option)" where
  "fetch_data requests_get league_id =
     (let response = requests_get (details_url league_id) in
      if status_code response = 200 then
        ([], case json response of Inl e \<Rightarrow> Inl e | Inr body \<Rightarrow> Inr (Some body))
      else ([St_error fetch_failed_message], Inr None))"

text \<open>Lines 27 to 174, the branch \<^verbatim>\<open>if data:\<close>.\<close>

definition process :: "api_data \<Rightarrow> event list \<times> py_error option" where
  "process data =
     (let header = [St_subheader (''League: '' @ league_name data)];
          reconciled = reconcile (league_entries data) (standings data)
      in case snd reconciled of
           Inl e \<Rightarrow> (header @ fst reconciled, Some e)
         | Inr None \<Rightarrow> (header @ fst reconciled, None)
         | Inr (Some merged_df) \<Rightarrow>
             (header @ fst reconciled @ fst (render merged_df), snd (render merged_df)))"

definition page_header :: "event list" where
  "page_header =
     [St_title ''Premier League Fantasy Football Dashboard'',
      St_write ''Welcome to the Premier League Fantasy Football Dashboard!'']"

definition enter_valid_message :: string where
  "enter_valid_message = ''Enter a valid League ID to see the standings.''"

text \<open>The whole script, for the text typed into the league field.\<close>

definition app :: "(string \<Rightarrow> response) \<Rightarrow> string \<Rightarrow> event list \<times> py_error option" where
  "app requests_get league_id =
     (let fetched = fetch_data requests_get league_id in
      case snd fetched of
        Inl e \<Rightarrow> (page_header @ fst fetched, Some e)
      | Inr None \<Rightarrow> (page_header @ fst fetched @ [St_write enter_valid_message], None)
      | Inr (Some data) \<Rightarrow>
          (page_header @ fst fetched @ fst (process data), snd (process data)))"

section \<open>The record types\<close>

text \<open>
  What the data model says of the records, as far as the properties below need it: an
  identifier is present and is an integer or a string; the three name fields of an entry
  and the total and the match counts of a standing are present and not null; and a
  standing has no field named like a name field of an entry.
\<close>

definition populated :: "cell \<Rightarrow> bool" where
  "populated v = (v \<noteq> NaN \<and> v \<noteq> NoneV)"

definition name_fields :: "string list" where
  "name_fields = [''entry_name'', ''player_first_name'', ''player_last_name'']"

definition match_fields :: "string list" where
  "match_fields = [''matches_won'', ''matches_lost'', ''matches_drawn'']"

definition league_entry_typed :: "json_obj \<Rightarrow> bool" where
  "league_entry_typed e =
     (typed_key (cell_of e ''id'') \<and>
      populated (cell_of e ''joined_time'') \<and>
      list_all (\<lambda>f. populated (cell_of e f)) name_fields)"

definition standing_typed :: "json_obj \<Rightarrow> bool" where
  "standing_typed s =
     (typed_key (cell_of s ''league_entry'') \<and>
      populated (cell_of s ''total'') \<and>
      list_all (\<lambda>c. populated (cell_of s c)) match_fields \<and>
      list_all (\<lambda>f. f \<notin> fst ` set s) name_fields)"

section \<open>Example inputs\<close>

text \<open>The end-to-end scenario: two entries, two standings, one identifier in common.\<close>

definition scenario_entries :: "json_obj list" where
  "scenario_entries =
     [[(''id'', StrV ''1''), (''entry_name'', StrV ''A''), (''joined_time'', StrV ''2024-08-01''),
       (''player_first_name'', StrV ''Ann''), (''player_last_name'', StrV ''Lee'')],
      [(''id'', StrV ''2''), (''entry_name'', StrV ''B''), (''joined_time'', StrV ''2024-08-02''),
       (''player_first_name'', StrV ''Bob''), (''player_last_name'', StrV ''Ray'')]]"

definition scenario_standings :: "json_obj list" where
  "scenario_standings =
     [[(''league_entry'', StrV ''1''), (''total'', StrV ''50'')],
      [(''league_entry'', StrV ''3''), (''total'', StrV ''30'')]]"

definition scenario_standings_df :: dataframe where
  "scenario_standings_df =
     \<lparr>columns = [''league_entry'', ''total''],
      rows = [[(''league_entry'', StrV ''1''), (''total'', StrV ''50'')],
              [(''league_entry'', StrV ''3''), (''total'', StrV ''30'')]]\<rparr>"

definition scenario_entries_df :: dataframe where
  "scenario_entries_df =
     \<lparr>columns = [''id'', ''entry_name'', ''joined_time'', ''player_first_name'', ''player_last_name''],
      rows = [[(''id'', StrV ''1''), (''entry_name'', StrV ''A''), (''joined_time'', StrV ''2024-08-01''),
               (''player_first_name'', StrV ''Ann''), (''player_last_name'', StrV ''Lee'')],
              [(''id'', StrV ''2''), (''entry_name'', StrV ''B''), (''joined_time'', StrV ''2024-08-02''),
               (''player_first_name'', StrV ''Bob''), (''player_last_name'', StrV ''Ray'')]]\<rparr>"

definition scenario_merged :: dataframe where
  "scenario_merged =
     \<lparr>columns = [''league_entry'', ''total'', ''id'', ''entry_name'', ''joined_time'',
                 ''player_first_name'', ''player_last_name''],
      rows = [[(''league_entry'', StrV ''1''), (''total'', IntV 50), (''id'', StrV ''1''),
               (''entry_name'', StrV ''A''), (''joined_time'', StrV ''2024-08-01''),
               (''player_first_name'', StrV ''Ann''), (''player_last_name'', StrV ''Lee'')]]\<rparr>"

text \<open>The same entries with numeric identifiers, as the API sends them.\<close>

definition numbered_entries :: "json_obj list" where
  "numbered_entries =
     [[(''id'', IntV 1), (''entry_name'', StrV ''A''), (''joined_time'', StrV ''2024-08-01''),
       (''player_first_name'', StrV ''Ann''), (''player_last_name'', StrV ''Lee'')],
      [(''id'', IntV 2), (''entry_name'', StrV ''B''), (''joined_time'', StrV ''2024-08-02''),
       (''player_first_name'', StrV ''Bob''), (''player_last_name'', StrV ''Ray'')]]"

text \<open>Standings with every field of the record type; the second total is negative.\<close>

definition played_standings :: "json_obj list" where
  "played_standings =
     [[(''league_entry'', IntV 1), (''total'', IntV 50), (''matches_won'', IntV 3),
       (''matches_lost'', IntV 1), (''matches_drawn'', IntV 0)],
      [(''league_entry'', IntV 2), (''total'', IntV (- 5)), (''matches_won'', IntV 0),
       (''matches_lost'', IntV 4), (''matches_drawn'', IntV 0)]]"

definition played_first :: row where
  "played_first =
     [(''league_entry'', StrV ''1''), (''total'', IntV 50), (''matches_won'', IntV 3),
      (''matches_lost'', IntV 1), (''matches_drawn'', IntV 0), (''id'', StrV ''1''),
      (''entry_name'', StrV ''A''), (''joined_time'', StrV ''2024-08-01''),
      (''player_first_name'', StrV ''Ann''), (''player_last_name'', StrV ''Lee'')]"

definition played_second :: row where
  "played_second =
     [(''league_entry'', StrV ''2''), (''total'', IntV (- 5)), (''matches_won'', IntV 0),
      (''matches_lost'', IntV 4), (''matches_drawn'', IntV 0), (''id'', StrV ''2''),
      (''entry_name'', StrV ''B''), (''joined_time'', StrV ''2024-08-02''),
      (''player_first_name'', StrV ''Bob''), (''player_last_name'', StrV ''Ray'')]"

definition played_columns :: "string list" where
  "played_columns =
     [''league_entry'', ''total'', ''matches_won'', ''matches_lost'', ''matches_drawn'', ''id'',
      ''entry_name'', ''joined_time'', ''player_first_name'', ''player_last_name'']"

definition played_table :: dataframe where
  "played_table = \<lparr>columns = played_columns, rows = [played_first, played_second]\<rparr>"

text \<open>The standings frame after line 45. With the numbered entries, the entries frame
  after line 46 is the scenario's, and both entries pass the filter of line 62.\<close>

definition played_sdf :: dataframe where
  "played_sdf =
     \<lparr>columns = [''league_entry'', ''total'', ''matches_won'', ''matches_lost'', ''matches_drawn''],
      rows = [[(''league_entry'', StrV ''1''), (''total'', IntV 50), (''matches_won'', IntV 3),
               (''matches_lost'', IntV 1), (''matches_drawn'', IntV 0)],
              [(''league_entry'', StrV ''2''), (''total'', IntV (- 5)), (''matches_won'', IntV 0),
               (''matches_lost'', IntV 4), (''matches_drawn'', IntV 0)]]\<rparr>"

text \<open>Standings of the same shape none of whose totals is a number, and the table they
  give.\<close>

definition unscored_standings :: "json_obj list" where
  "unscored_standings =
     [[(''league_entry'', IntV 1), (''total'', StrV ''abc''), (''matches_won'', IntV 0),
       (''matches_lost'', IntV 0), (''matches_drawn'', IntV 0)],
      [(''league_entry'', IntV 2), (''total'', StrV ''n/a''), (''matches_won'', IntV 0),
       (''matches_lost'', IntV 0), (''matches_drawn'', IntV 0)]]"

definition unscored_table :: dataframe where
  "unscored_table =
     \<lparr>columns = played_columns,
      rows = [[(''league_entry'', StrV ''1''), (''total'', IntV 0), (''matches_won'', IntV 0),
               (''matches_lost'', IntV 0), (''matches_drawn'', IntV 0), (''id'', StrV ''1''),
               (''entry_name'', StrV ''A''), (''joined_time'', StrV ''2024-08-01''),
               (''player_first_name'', StrV ''Ann''), (''player_last_name'', StrV ''Lee'')],
              [(''league_entry'', StrV ''2''), (''total'', IntV 0), (''matches_won'', IntV 0),
               (''matches_lost'', IntV 0), (''matches_drawn'', IntV 0), (''id'', StrV ''2''),
               (''entry_name'', StrV ''B''), (''joined_time'', StrV ''2024-08-02''),
               (''player_first_name'', StrV ''Bob''), (''player_last_name'', StrV ''Ray'')]]\<rparr>"

text \<open>A column of totals of every kind, before and after line 85.\<close>

definition mixed_totals :: dataframe where
  "mixed_totals =
     \<lparr>columns = [''total''],
      rows = [[(''total'', StrV ''42'')], [(''total'', StrV ''abc'')], [(''total'', NoneV)],
              [(''total'', NaN)], [(''total'', IntV 7)], [(''total'', StrV '' 42 '')],
              [(''total'', StrV ''4.5'')], [(''total'', StrV ''1e3'')]]\<rparr>"

definition mixed_totals_normalized :: dataframe where
  "mixed_totals_normalized =
     \<lparr>columns = [''total''],
      rows = [[(''total'', IntV 42)], [(''total'', IntV 0)], [(''total'', IntV 0)],
              [(''total'', IntV 0)], [(''total'', IntV 7)], [(''total'', IntV 42)],
              [(''total'', FloatV ''4.5'')], [(''total'', FloatV ''1e3'')]]\<rparr>"

text \<open>Two networks: one answers 404, one answers 200 with the scenario.\<close>

definition not_found_net :: "string \<Rightarrow> response" where
  "not_found_net url = \<lparr>status_code = 404, json = Inl JSONDecodeError\<rparr>"

definition scenario_data :: api_data where
  "scenario_data = \<lparr>league_name = ''Test League'', league_entries = scenario_entries,
                     standings = scenario_standings\<rparr>"

definition scenario_net :: "string \<Rightarrow> response" where
  "scenario_net url = \<lparr>status_code = 200, json = Inr scenario_data\<rparr>"



section \<open>Properties\<close>

subsection \<open>Cells, columns and frames\<close>

lemma map_of_set_cell: "map_of (set_cell c v r) = (map_of r)(c \<mapsto> v)"
  by (induction r) (auto simp: fun_eq_iff)

lemma cell_of_set_cell_same: "cell_of (set_cell c v r) c = v"
  by (simp add: cell_of_def map_of_set_cell)

lemma cell_of_set_cell_other: "c' \<noteq> c \<Longrightarrow> cell_of (set_cell c v r) c' = cell_of r c'"
  by (simp add: cell_of_def map_of_set_cell)

lemma map_of_project:
  "map_of (map (\<lambda>c. (c, g c)) cs) f = (if f \<in> set cs then Some (g f) else None)"
  by (induction cs) auto

lemma cell_of_project:
  "cell_of (map (\<lambda>c. (c, cell_of r c)) cs) f = (if f \<in> set cs then cell_of r f else NaN)"
  by (simp add: cell_of_def map_of_project)

lemma setitem_mapped:
  "setitem df c (map f (map (\<lambda>r. cell_of r c) (rows df))) =
     df\<lparr>rows := map (\<lambda>r. set_cell c (f (cell_of r c)) r) (rows df)\<rparr>"
proof -
  have "map (\<lambda>(r, v). set_cell c v r) (zip xs (map f (map (\<lambda>r. cell_of r c) xs))) =
        map (\<lambda>r. set_cell c (f (cell_of r c)) r) xs" for xs
    by (induction xs) auto
  then show ?thesis
    by (simp add: setitem_def del: map_map)
qed

lemma normalize_total_Inr:
  "normalize_total df = Inr df' \<longleftrightarrow>
     ''total'' \<in> set (columns df) \<and>
     df' = df\<lparr>rows := map (\<lambda>r. set_cell ''total'' (coerce_total (cell_of r ''total'')) r) (rows df)\<rparr>"
  unfolding normalize_total_def assign_column_def getitem_def
  by (auto simp: setitem_mapped simp del: map_map)

lemma key_column_Inr:
  "assign_column df key astype_str = Inr df' \<longleftrightarrow>
     key \<in> set (columns df) \<and>
     list_all (\<lambda>r. typed_key (cell_of r key)) (rows df) \<and>
     df' = df\<lparr>rows := map (\<lambda>r. set_cell key (StrV (py_str (cell_of r key))) r) (rows df)\<rparr>"
proof -
  have "list_all typed_key (map (\<lambda>r. cell_of r key) (rows df)) =
        list_all (\<lambda>r. typed_key (cell_of r key)) (rows df)"
    by (simp add: list_all_iff)
  then show ?thesis
    unfolding assign_column_def getitem_def astype_str_def
    by (auto simp: setitem_mapped simp del: map_map)
qed

lemma key_column_KeyError:
  "assign_column df key astype_str = Inl (KeyError cs) \<longleftrightarrow>
     key \<notin> set (columns df) \<and> cs = [key]"
  unfolding assign_column_def getitem_def astype_str_def
  by auto

lemma getitem_list_Inr:
  "getitem_list df cs = Inr sel \<longleftrightarrow>
     set cs \<subseteq> set (columns df) \<and>
     sel = \<lparr>columns = cs, rows = map (\<lambda>r. map (\<lambda>c. (c, cell_of r c)) cs) (rows df)\<rparr>"
proof -
  have "filter (\<lambda>c. c \<notin> set (columns df)) cs = [] \<longleftrightarrow> set cs \<subseteq> set (columns df)"
    by (auto simp: filter_empty_conv)
  then show ?thesis
    by (cases "filter (\<lambda>c. c \<notin> set (columns df)) cs") (auto simp: getitem_list_def)
qed

lemma coerce_keys_parts:
  "coerce_keys entries stands = Inr (sdf, edf) \<longleftrightarrow>
     assign_column (DataFrame stands) ''league_entry'' astype_str = Inr sdf \<and>
     assign_column (DataFrame entries) ''id'' astype_str = Inr edf"
  by (auto simp: coerce_keys_def split: sum.splits)

lemma reconcile_ok:
  "coerce_keys entries stands = Inr (sdf, edf) \<Longrightarrow>
   reconcile entries stands =
     (raw_events entries stands @ mismatch_warnings sdf edf @
      empty_errors (valid_standings_df sdf edf) (valid_entries_df sdf edf) @
      fst (merge_section (valid_standings_df sdf edf) (valid_entries_df sdf edf)),
      snd (merge_section (valid_standings_df sdf edf) (valid_entries_df sdf edf)))"
  by (simp add: reconcile_def Let_def)

lemma reconcile_raise:
  "coerce_keys entries stands = Inl e \<Longrightarrow>
   reconcile entries stands = (raw_events entries stands, Inl e)"
  by (simp add: reconcile_def)

lemma DataFrame_columns: "set (columns (DataFrame recs)) = (\<Union>r \<in> set recs. fst ` set r)"
  by (auto simp: DataFrame_def first_seen_def Let_def)

lemma DataFrame_row:
  assumes "r0 \<in> set (rows (DataFrame recs))"
  shows "\<exists>s \<in> set recs. \<forall>c. cell_of r0 c = cell_of s c"
proof -
  from assms obtain s where s: "s \<in> set recs"
    and r0: "r0 = map (\<lambda>c. (c, cell_of s c)) (columns (DataFrame recs))"
    by (auto simp: DataFrame_def Let_def)
  have "cell_of r0 c = cell_of s c" for c
  proof (cases "c \<in> set (columns (DataFrame recs))")
    case True
    then show ?thesis by (simp add: r0 cell_of_project)
  next
    case False
    with s have "c \<notin> fst ` set s" by (auto simp: DataFrame_columns)
    then have "map_of s c = None" by (simp add: map_of_eq_None_iff)
    with False show ?thesis by (simp add: r0 cell_of_project) (simp add: cell_of_def)
  qed
  with s show ?thesis by blast
qed

lemma DataFrame_record:
  assumes "s \<in> set recs"
  shows "\<exists>r0 \<in> set (rows (DataFrame recs)). \<forall>c. cell_of r0 c = cell_of s c"
proof -
  let ?r0 = "map (\<lambda>c. (c, cell_of s c)) (columns (DataFrame recs))"
  from assms have in_rows: "?r0 \<in> set (rows (DataFrame recs))"
    by (auto simp: DataFrame_def Let_def)
  have "cell_of ?r0 c = cell_of s c" for c
  proof (cases "c \<in> set (columns (DataFrame recs))")
    case True
    then show ?thesis by (simp add: cell_of_project)
  next
    case False
    with assms have "c \<notin> fst ` set s" by (auto simp: DataFrame_columns)
    then have "map_of s c = None" by (simp add: map_of_eq_None_iff)
    with False show ?thesis by (simp add: cell_of_project) (simp add: cell_of_def)
  qed
  with in_rows show ?thesis by blast
qed

lemma coerced_row:
  assumes "assign_column (DataFrame recs) key astype_str = Inr df" "r \<in> set (rows df)"
  shows "\<exists>s \<in> set recs. typed_key (cell_of s key) \<and>
           cell_of r key = StrV (py_str (cell_of s key)) \<and>
           (\<forall>c. c \<noteq> key \<longrightarrow> cell_of r c = cell_of s c)"
proof -
  from assms obtain r0 where r0: "r0 \<in> set (rows (DataFrame recs))"
    and typed: "typed_key (cell_of r0 key)"
    and r: "r = set_cell key (StrV (py_str (cell_of r0 key))) r0"
    by (auto simp: key_column_Inr list_all_iff)
  from DataFrame_row [OF r0] obtain s where s: "s \<in> set recs" "\<forall>c. cell_of r0 c = cell_of s c"
    by blast
  with typed show ?thesis
    by (auto simp: r cell_of_set_cell_same cell_of_set_cell_other)
qed

subsection \<open>The end-to-end scenario\<close>

lemma scenario_keys:
  "coerce_keys scenario_entries scenario_standings = Inr (scenario_standings_df, scenario_entries_df)"
  by code_simp

lemma scenario_missing:
  "missing_in_entries scenario_standings_df scenario_entries_df = {StrV ''3''}"
  "missing_in_standings scenario_standings_df scenario_entries_df = {StrV ''2''}"
  by (auto simp add: missing_in_entries_def missing_in_standings_def standings_ids_def
      entries_ids_def scenario_standings_df_def scenario_entries_df_def cell_of_def)

lemma scenario_reconciled:
  "snd (reconcile scenario_entries scenario_standings) = Inr (Some scenario_merged)"
  by code_simp

text \<open>
  C1. For the entries with ids "1" and "2" and the standings with league entries "1"
  (total "50") and "3" (total "30"), the reconciler computes
  \<open>missing_in_entries = {"3"}\<close> and \<open>missing_in_standings = {"2"}\<close>, both are reported,
  and the table it produces has exactly one row: the one with id "1", whose total is the
  number 50.
\<close>

theorem end_to_end_scenario:
  "coerce_keys scenario_entries scenario_standings = Inr (scenario_standings_df, scenario_entries_df) \<and>
   missing_in_entries scenario_standings_df scenario_entries_df = {StrV ''3''} \<and>
   missing_in_standings scenario_standings_df scenario_entries_df = {StrV ''2''} \<and>
   mismatch_warnings scenario_standings_df scenario_entries_df =
     [St_warning not_in_entries_message {StrV ''3''},
      St_warning not_in_standings_message {StrV ''2''}] \<and>
   snd (reconcile scenario_entries scenario_standings) = Inr (Some scenario_merged) \<and>
   length (rows scenario_merged) = 1 \<and>
   cell_of (hd (rows scenario_merged)) ''id'' = StrV ''1'' \<and>
   cell_of (hd (rows scenario_merged)) ''total'' = IntV 50"
  by (simp add: scenario_keys scenario_missing scenario_reconciled mismatch_warnings_def)
     (simp add: scenario_merged_def cell_of_def)

subsection \<open>The join after filtering\<close>

lemma matches_nonempty:
  assumes sel: "getitem_list (valid_entries_df sdf edf) entry_fields = Inr right"
    and l: "l \<in> set (rows (valid_standings_df sdf edf))"
  shows "matches right ''league_entry'' ''id'' l \<noteq> []"
proof -
  from l have lin: "l \<in> set (rows sdf)" and key: "cell_of l ''league_entry'' \<in> entries_ids edf"
    by (auto simp: valid_standings_df_def isin_filter_def)
  from key obtain e where e: "e \<in> set (rows edf)" "cell_of e ''id'' = cell_of l ''league_entry''"
    by (auto simp: entries_ids_def)
  from lin e have "cell_of e ''id'' \<in> standings_ids sdf"
    by (auto simp: standings_ids_def)
  with e have ev: "e \<in> set (rows (valid_entries_df sdf edf))"
    by (simp add: valid_entries_df_def isin_filter_def)
  let ?p = "map (\<lambda>c. (c, cell_of e c)) entry_fields"
  from sel ev have "?p \<in> set (rows right)"
    by (auto simp: getitem_list_Inr)
  moreover have "cell_of ?p ''id'' = cell_of l ''league_entry''"
    unfolding cell_of_project using e by (simp add: entry_fields_def)
  ultimately show ?thesis
    by (auto simp: matches_def filter_empty_conv)
qed

lemma merge_left_inner:
  assumes "\<And>l. l \<in> set (rows left) \<Longrightarrow> matches right lo ro l \<noteq> []"
  shows "merge_left left right lo ro = merge_inner left right lo ro"
proof -
  have "\<And>l. l \<in> set (rows left) \<Longrightarrow>
      (case matches right lo ro l of [] \<Rightarrow> [unmatched_row left right l]
        | ms \<Rightarrow> map (join_rows left right l) ms) = map (join_rows left right l) (matches right lo ro l)"
    using assms by (auto split: list.splits)
  then show ?thesis
    by (simp add: merge_left_def merge_inner_def cong: map_cong)
qed

lemma merge_inner_rows:
  "row \<in> set (rows (merge_inner left right lo ro)) \<longleftrightarrow>
     (\<exists>l \<in> set (rows left). \<exists>e \<in> set (rows right).
        cell_of e ro = cell_of l lo \<and> row = join_rows left right l e)"
  by (auto simp: merge_inner_def matches_def)

lemma map_of_left_part:
  assumes "c \<notin> (\<lambda>k. k @ ''_x'') ` set (columns right)"
  shows "map_of (map (\<lambda>(k, v). (left_name right k, v)) l) c =
           (if c \<in> set (columns right) then None else map_of l c)"
  using assms by (induction l) (auto simp: left_name_def split: if_splits)

lemma map_of_right_part:
  assumes "c \<notin> (\<lambda>k. k @ ''_y'') ` fst ` set r"
  shows "map_of (map (\<lambda>(k, v). (right_name left k, v)) r) c =
           (if c \<in> set (columns left) then None else map_of r c)"
  using assms by (induction r) (auto simp: right_name_def split: if_splits)

lemma cell_of_join_left:
  assumes "c \<notin> (\<lambda>k. k @ ''_x'') ` set (columns right)" "c \<notin> set (columns right)"
    "c \<notin> (\<lambda>k. k @ ''_y'') ` fst ` set r" "c \<notin> fst ` set r"
  shows "cell_of (join_rows left right l r) c = cell_of l c"
proof -
  have "map_of r c = None"
    using assms(4) by (simp add: map_of_eq_None_iff)
  then show ?thesis
    using assms(1,2,3)
    by (simp add: cell_of_def join_rows_def map_add_def map_of_left_part map_of_right_part
        split: option.splits)
qed

lemma cell_of_join_right:
  assumes "c \<notin> (\<lambda>k. k @ ''_x'') ` set (columns right)" "c \<in> set (columns right)"
    "c \<notin> (\<lambda>k. k @ ''_y'') ` fst ` set r" "c \<notin> set (columns left)"
  shows "cell_of (join_rows left right l r) c = cell_of r c"
  using assms
  by (simp add: cell_of_def join_rows_def map_add_def map_of_left_part map_of_right_part
      split: option.splits)

text \<open>Where the cells of a row of the merged table come from.\<close>

lemma merged_row_sources:
  assumes keys: "coerce_keys entries stands = Inr (sdf, edf)"
    and sel: "getitem_list (valid_entries_df sdf edf) entry_fields = Inr right"
    and row: "row \<in> set (rows (merge_left (valid_standings_df sdf edf) right ''league_entry'' ''id''))"
  shows "\<exists>s \<in> set stands. \<exists>e \<in> set entries.
           py_str (cell_of s ''league_entry'') = py_str (cell_of e ''id'') \<and>
           cell_of row ''league_entry'' = StrV (py_str (cell_of s ''league_entry'')) \<and>
           cell_of row ''total'' = cell_of s ''total'' \<and>
           (\<forall>c \<in> set match_fields. cell_of row c = cell_of s c) \<and>
           (\<forall>f \<in> set name_fields.
              f \<notin> set (columns (DataFrame stands)) \<longrightarrow> cell_of row f = cell_of e f)"
proof -
  let ?vs = "valid_standings_df sdf edf"
  let ?ve = "valid_entries_df sdf edf"
  from keys have sdf: "assign_column (DataFrame stands) ''league_entry'' astype_str = Inr sdf"
    and edf: "assign_column (DataFrame entries) ''id'' astype_str = Inr edf"
    by (simp_all add: coerce_keys_parts)
  have inner: "merge_left ?vs right ''league_entry'' ''id'' = merge_inner ?vs right ''league_entry'' ''id''"
    by (rule merge_left_inner) (rule matches_nonempty [OF sel])
  from sel have right_cols: "columns right = entry_fields"
    and right_rows: "rows right = map (\<lambda>r. map (\<lambda>c. (c, cell_of r c)) entry_fields) (rows ?ve)"
    by (simp_all add: getitem_list_Inr)
  have vs_cols: "columns ?vs = columns (DataFrame stands)"
    using sdf by (auto simp: key_column_Inr valid_standings_df_def isin_filter_def)
  from row obtain l r where l: "l \<in> set (rows ?vs)" and r: "r \<in> set (rows right)"
    and key: "cell_of r ''id'' = cell_of l ''league_entry''"
    and join: "row = join_rows ?vs right l r"
    unfolding inner by (auto simp: merge_inner_rows)
  from r obtain e1 where e1: "e1 \<in> set (rows ?ve)"
    and r_eq: "r = map (\<lambda>c. (c, cell_of e1 c)) entry_fields"
    by (auto simp: right_rows)
  have r_keys: "fst ` set r = set entry_fields"
    by (auto simp: r_eq image_iff)
  have r_cell: "cell_of r c = (if c \<in> set entry_fields then cell_of e1 c else NaN)" for c
    by (simp add: r_eq cell_of_project)
  from l have "l \<in> set (rows sdf)"
    by (simp add: valid_standings_df_def isin_filter_def)
  from coerced_row [OF sdf this] obtain s where s: "s \<in> set stands"
    and s_key: "cell_of l ''league_entry'' = StrV (py_str (cell_of s ''league_entry''))"
    and s_other: "\<forall>c. c \<noteq> ''league_entry'' \<longrightarrow> cell_of l c = cell_of s c"
    by blast
  from e1 have "e1 \<in> set (rows edf)"
    by (simp add: valid_entries_df_def isin_filter_def)
  from coerced_row [OF edf this] obtain e where e: "e \<in> set entries"
    and e_key: "cell_of e1 ''id'' = StrV (py_str (cell_of e ''id''))"
    and e_other: "\<forall>c. c \<noteq> ''id'' \<longrightarrow> cell_of e1 c = cell_of e c"
    by blast
  have same: "py_str (cell_of s ''league_entry'') = py_str (cell_of e ''id'')"
    using key s_key e_key by (simp add: r_cell entry_fields_def)
  have left_cell: "cell_of row c = cell_of l c"
    if "c \<in> insert ''league_entry'' (insert ''total'' (set match_fields))" for c
    unfolding join
    by (rule cell_of_join_left)
       (use that in \<open>auto simp: right_cols r_keys entry_fields_def match_fields_def\<close>)
  have right_cell: "cell_of row f = cell_of r f"
    if "f \<in> set name_fields" "f \<notin> set (columns (DataFrame stands))" for f
    unfolding join
    by (rule cell_of_join_right)
       (use that in \<open>auto simp: right_cols r_keys entry_fields_def name_fields_def vs_cols\<close>)
  have a: "cell_of row ''league_entry'' = StrV (py_str (cell_of s ''league_entry''))"
    using left_cell [of "''league_entry''"] s_key by simp
  have b: "cell_of row ''total'' = cell_of s ''total''"
    using left_cell [of "''total''"] s_other by simp
  have c: "\<forall>c \<in> set match_fields. cell_of row c = cell_of s c"
  proof
    fix c assume c: "c \<in> set match_fields"
    then have "c \<noteq> ''league_entry''" by (auto simp: match_fields_def)
    with left_cell [of c] c s_other show "cell_of row c = cell_of s c"
      by simp
  qed
  have d: "\<forall>f \<in> set name_fields.
              f \<notin> set (columns (DataFrame stands)) \<longrightarrow> cell_of row f = cell_of e f"
  proof (intro ballI impI)
    fix f assume f: "f \<in> set name_fields" and nf: "f \<notin> set (columns (DataFrame stands))"
    from f have "f \<noteq> ''id''" "f \<in> set entry_fields"
      by (auto simp: entry_fields_def name_fields_def)
    with right_cell [OF f nf] e_other show "cell_of row f = cell_of e f"
      by (simp add: r_cell)
  qed
  from s e same a b c d show ?thesis by blast
qed

lemma typed_standing:
  assumes "list_all standing_typed stands" "s \<in> set stands"
  shows "populated (cell_of s ''total'')"
    and "\<forall>c \<in> set match_fields. populated (cell_of s c)"
  using assms by (auto simp: list_all_iff standing_typed_def)

lemma typed_entry:
  assumes "list_all league_entry_typed entries" "e \<in> set entries"
  shows "\<forall>f \<in> set name_fields. populated (cell_of e f)"
  using assms by (auto simp: list_all_iff league_entry_typed_def)

lemma no_name_columns:
  assumes "list_all standing_typed stands" "f \<in> set name_fields"
  shows "f \<notin> set (columns (DataFrame stands))"
  using assms by (auto simp: list_all_iff standing_typed_def DataFrame_columns)

lemma played_keys:
  "coerce_keys numbered_entries played_standings = Inr (played_sdf, scenario_entries_df)"
  by code_simp

lemma played_selection:
  "getitem_list (valid_entries_df played_sdf scenario_entries_df) entry_fields =
     Inr scenario_entries_df"
  by code_simp

lemma played_typed:
  "list_all league_entry_typed numbered_entries" "list_all standing_typed played_standings"
  by code_simp+

lemma played_merged_first:
  "hd (rows (merge_left (valid_standings_df played_sdf scenario_entries_df) scenario_entries_df
         ''league_entry'' ''id'')) =
     [(''league_entry'', StrV ''1''), (''total'', IntV 50), (''matches_won'', IntV 3),
      (''matches_lost'', IntV 1), (''matches_drawn'', IntV 0), (''id'', StrV ''1''),
      (''entry_name'', StrV ''A''), (''joined_time'', StrV ''2024-08-01''),
      (''player_first_name'', StrV ''Ann''), (''player_last_name'', StrV ''Lee'')]"
  by code_simp

text \<open>
  C2. When lines 45 and 46 succeed, the left join of line 72, of the standings filtered to
  the identifiers of the entries onto the entries filtered to the identifiers of the
  standings, is the inner join: no standing row is left unmatched. For records of the
  types of the data model, every row of the result belongs to one standing and one entry
  with the same identifier, and holds the standing's total and match counts and the
  entry's three name fields, none of them null or missing.
\<close>

theorem filtered_left_join_is_inner:
  assumes "coerce_keys entries stands = Inr (sdf, edf)"
    and "getitem_list (valid_entries_df sdf edf) entry_fields = Inr right"
  shows "merge_left (valid_standings_df sdf edf) right ''league_entry'' ''id'' =
           merge_inner (valid_standings_df sdf edf) right ''league_entry'' ''id'' \<and>
         (list_all league_entry_typed entries \<and> list_all standing_typed stands \<longrightarrow>
            (\<forall>row \<in> set (rows (merge_left (valid_standings_df sdf edf) right ''league_entry'' ''id'')).
               \<exists>s \<in> set stands. \<exists>e \<in> set entries.
                 py_str (cell_of s ''league_entry'') = py_str (cell_of e ''id'') \<and>
                 cell_of row ''league_entry'' = StrV (py_str (cell_of s ''league_entry'')) \<and>
                 cell_of row ''total'' = cell_of s ''total'' \<and>
                 populated (cell_of row ''total'') \<and>
                 (\<forall>c \<in> set match_fields. cell_of row c = cell_of s c \<and> populated (cell_of row c)) \<and>
                 (\<forall>f \<in> set name_fields. cell_of row f = cell_of e f \<and> populated (cell_of row f))))"
proof (intro conjI impI ballI)
  show "merge_left (valid_standings_df sdf edf) right ''league_entry'' ''id'' =
           merge_inner (valid_standings_df sdf edf) right ''league_entry'' ''id''"
    by (rule merge_left_inner) (rule matches_nonempty [OF assms(2)])
next
  fix row
  assume typed: "list_all league_entry_typed entries \<and> list_all standing_typed stands"
    and row: "row \<in> set (rows (merge_left (valid_standings_df sdf edf) right ''league_entry'' ''id''))"
  from merged_row_sources [OF assms row] obtain s e where s: "s \<in> set stands" and e: "e \<in> set entries"
    and same: "py_str (cell_of s ''league_entry'') = py_str (cell_of e ''id'')"
    and key: "cell_of row ''league_entry'' = StrV (py_str (cell_of s ''league_entry''))"
    and total: "cell_of row ''total'' = cell_of s ''total''"
    and counts: "\<forall>c \<in> set match_fields. cell_of row c = cell_of s c"
    and names: "\<forall>f \<in> set name_fields.
              f \<notin> set (columns (DataFrame stands)) \<longrightarrow> cell_of row f = cell_of e f"
    by blast
  from typed have te: "list_all league_entry_typed entries"
    and ts: "list_all standing_typed stands"
    by simp_all
  note ps = typed_standing [OF ts s]
  note pe = typed_entry [OF te e]
  have free: "\<forall>f \<in> set name_fields. f \<notin> set (columns (DataFrame stands))"
    using no_name_columns [OF ts] by blast
  from total ps have t: "populated (cell_of row ''total'')" by simp
  from counts ps have c: "\<forall>c \<in> set match_fields. cell_of row c = cell_of s c \<and> populated (cell_of row c)"
    by simp
  from names free pe have n: "\<forall>f \<in> set name_fields. cell_of row f = cell_of e f \<and> populated (cell_of row f)"
    by simp
  from s e same key total t c n
  show "\<exists>s \<in> set stands. \<exists>e \<in> set entries.
                 py_str (cell_of s ''league_entry'') = py_str (cell_of e ''id'') \<and>
                 cell_of row ''league_entry'' = StrV (py_str (cell_of s ''league_entry'')) \<and>
                 cell_of row ''total'' = cell_of s ''total'' \<and>
                 populated (cell_of row ''total'') \<and>
                 (\<forall>c \<in> set match_fields. cell_of row c = cell_of s c \<and> populated (cell_of row c)) \<and>
                 (\<forall>f \<in> set name_fields. cell_of row f = cell_of e f \<and> populated (cell_of row f))"
    by blast
qed

theorem filtered_left_join_is_inner_witness:
  "coerce_keys numbered_entries played_standings = Inr (played_sdf, scenario_entries_df) \<and>
   getitem_list (valid_entries_df played_sdf scenario_entries_df) entry_fields =
     Inr scenario_entries_df \<and>
   list_all league_entry_typed numbered_entries \<and>
   list_all standing_typed played_standings \<and>
   merge_left (valid_standings_df played_sdf scenario_entries_df) scenario_entries_df
       ''league_entry'' ''id'' =
     merge_inner (valid_standings_df played_sdf scenario_entries_df) scenario_entries_df
       ''league_entry'' ''id'' \<and>
   length (rows (merge_left (valid_standings_df played_sdf scenario_entries_df)
       scenario_entries_df ''league_entry'' ''id'')) = 2 \<and>
   cell_of (hd (rows (merge_left (valid_standings_df played_sdf scenario_entries_df)
       scenario_entries_df ''league_entry'' ''id''))) ''entry_name'' = StrV ''A''"
proof -
  have n: "length (rows (merge_left (valid_standings_df played_sdf scenario_entries_df)
       scenario_entries_df ''league_entry'' ''id'')) = 2"
    by code_simp
  have h: "cell_of (hd (rows (merge_left (valid_standings_df played_sdf scenario_entries_df)
       scenario_entries_df ''league_entry'' ''id''))) ''entry_name'' = StrV ''A''"
    unfolding played_merged_first by (simp add: cell_of_def)
  from filtered_left_join_is_inner [OF played_keys played_selection]
  have eq: "merge_left (valid_standings_df played_sdf scenario_entries_df) scenario_entries_df
       ''league_entry'' ''id'' =
     merge_inner (valid_standings_df played_sdf scenario_entries_df) scenario_entries_df
       ''league_entry'' ''id''"
    by (rule conjunct1)
  from played_keys played_selection played_typed eq n h show ?thesis
    by (intro conjI)
qed

subsection \<open>The numeric total\<close>

lemma to_numeric_range: "to_numeric v = NaN \<or> is_number (to_numeric v)"
  by (cases v) (auto split: literal.splits)

lemma coerce_total_number: "is_number (coerce_total v)"
  using to_numeric_range [of v] by (auto simp: coerce_total_def) (cases "to_numeric v"; simp)+

lemma coerce_total_failed: "to_numeric v = NaN \<Longrightarrow> coerce_total v = IntV 0"
  by (simp add: coerce_total_def)

lemma coerce_total_kept: "to_numeric v \<noteq> NaN \<Longrightarrow> coerce_total v = to_numeric v"
  using to_numeric_range [of v] by (cases "to_numeric v") (simp_all add: coerce_total_def)

lemma coerce_total_examples:
  "coerce_total (StrV ''42'') = IntV 42"
  "coerce_total (StrV ''abc'') = IntV 0"
  "coerce_total (StrV '' 42 '') = IntV 42"
  "coerce_total (StrV ''-7'') = IntV (- 7)"
  "coerce_total (StrV ''4.5'') = FloatV ''4.5''"
  "coerce_total (StrV ''1e3'') = FloatV ''1e3''"
  "coerce_total (StrV ''12345678901234567890'') = FloatV ''12345678901234567890''"
  "coerce_total (StrV ''nan'') = IntV 0"
  "coerce_total (StrV '''') = IntV 0"
  "coerce_total (IntV 7) = IntV 7"
  by code_simp+

lemma normalize_total_column:
  assumes "''total'' \<in> set (columns df)"
  shows "\<exists>df'. normalize_total df = Inr df' \<and> columns df' = columns df \<and>
           map (\<lambda>r. cell_of r ''total'') (rows df') =
           map (\<lambda>r. coerce_total (cell_of r ''total'')) (rows df)"
  using assms by (simp add: normalize_total_Inr cell_of_set_cell_same o_def)

text \<open>
  C3. The normalization of the \<^verbatim>\<open>total\<close> column maps the string "42" to the number
  42, the string "abc" to 0, and a null or missing value to 0. In general a value that
  fails the numeric coercion becomes 0, a value that passes it is kept, the result is
  always a number, and the step raises nothing on account of a value: whenever the
  column exists, line 85 returns the frame with every total coerced.
\<close>

theorem total_coercion:
  "coerce_total (StrV ''42'') = IntV 42 \<and>
   coerce_total (StrV ''abc'') = IntV 0 \<and>
   coerce_total NoneV = IntV 0 \<and>
   coerce_total NaN = IntV 0 \<and>
   (\<forall>v. to_numeric v = NaN \<longrightarrow> coerce_total v = IntV 0) \<and>
   (\<forall>v. to_numeric v \<noteq> NaN \<longrightarrow> coerce_total v = to_numeric v) \<and>
   (\<forall>v. is_number (coerce_total v)) \<and>
   (\<forall>df. ''total'' \<in> set (columns df) \<longrightarrow>
      (\<exists>df'. normalize_total df = Inr df' \<and> columns df' = columns df \<and>
         map (\<lambda>r. cell_of r ''total'') (rows df') =
         map (\<lambda>r. coerce_total (cell_of r ''total'')) (rows df)))"
proof -
  have "coerce_total NoneV = IntV 0" "coerce_total NaN = IntV 0"
    by (simp_all add: coerce_total_def)
  then show ?thesis
    using coerce_total_examples(1,2) coerce_total_number coerce_total_failed coerce_total_kept
      normalize_total_column
    by (intro conjI allI impI)
qed

theorem total_coercion_witness:
  "to_numeric (StrV ''abc'') = NaN \<and> coerce_total (StrV ''abc'') = IntV 0 \<and>
   to_numeric (StrV ''4.5'') \<noteq> NaN \<and> coerce_total (StrV ''4.5'') = FloatV ''4.5'' \<and>
   ''total'' \<in> set (columns mixed_totals) \<and>
   normalize_total mixed_totals = Inr mixed_totals_normalized"
proof -
  have a: "to_numeric (StrV ''abc'') = NaN"
    by code_simp
  have b: "to_numeric (StrV ''4.5'') = FloatV ''4.5''"
    by code_simp
  then have b': "to_numeric (StrV ''4.5'') \<noteq> NaN"
    by simp
  have c: "''total'' \<in> set (columns mixed_totals)"
    by (simp add: mixed_totals_def)
  have d: "normalize_total mixed_totals = Inr mixed_totals_normalized"
    by code_simp
  from total_coercion have f: "\<forall>v. to_numeric v = NaN \<longrightarrow> coerce_total v = IntV 0"
    by (elim conjE)
  from total_coercion have k: "\<forall>v. to_numeric v \<noteq> NaN \<longrightarrow> coerce_total v = to_numeric v"
    by (elim conjE)
  from f k a b b' have "coerce_total (StrV ''abc'') = IntV 0"
    and "coerce_total (StrV ''4.5'') = FloatV ''4.5''"
    by simp_all
  with a b' c d show ?thesis
    by (intro conjI)
qed

subsection \<open>Identifier mismatches\<close>

lemma messages_differ: "not_in_entries_message \<noteq> not_in_standings_message"
  by (simp add: not_in_entries_message_def not_in_standings_message_def)

text \<open>
  C4. The two reported sets together are the symmetric difference of the standings'
  and the entries' identifier sets. A warning for a set is emitted exactly when that set
  is not empty, and carries that set. With or without warnings the script goes on: what
  follows the warnings is the filtering and the merge on the same two frames.
\<close>

theorem mismatch_report:
  "missing_in_entries s e \<union> missing_in_standings s e =
     (standings_ids s \<union> entries_ids e) - (standings_ids s \<inter> entries_ids e) \<and>
   ((\<exists>ids. St_warning not_in_entries_message ids \<in> set (mismatch_warnings s e)) \<longleftrightarrow>
      missing_in_entries s e \<noteq> {}) \<and>
   ((\<exists>ids. St_warning not_in_standings_message ids \<in> set (mismatch_warnings s e)) \<longleftrightarrow>
      missing_in_standings s e \<noteq> {}) \<and>
   (\<forall>msg ids. St_warning msg ids \<in> set (mismatch_warnings s e) \<longrightarrow>
      (msg = not_in_entries_message \<and> ids = missing_in_entries s e) \<or>
      (msg = not_in_standings_message \<and> ids = missing_in_standings s e)) \<and>
   (\<forall>entries stands. coerce_keys entries stands = Inr (s, e) \<longrightarrow>
      fst (reconcile entries stands) =
        raw_events entries stands @ mismatch_warnings s e @
        empty_errors (valid_standings_df s e) (valid_entries_df s e) @
        fst (merge_section (valid_standings_df s e) (valid_entries_df s e)) \<and>
      snd (reconcile entries stands) =
        snd (merge_section (valid_standings_df s e) (valid_entries_df s e)))"
proof -
  have "missing_in_entries s e \<union> missing_in_standings s e =
     (standings_ids s \<union> entries_ids e) - (standings_ids s \<inter> entries_ids e)"
    by (auto simp: missing_in_entries_def missing_in_standings_def)
  moreover have "(\<exists>ids. St_warning not_in_entries_message ids \<in> set (mismatch_warnings s e)) \<longleftrightarrow>
      missing_in_entries s e \<noteq> {}"
    using messages_differ by (auto simp: mismatch_warnings_def)
  moreover have "(\<exists>ids. St_warning not_in_standings_message ids \<in> set (mismatch_warnings s e)) \<longleftrightarrow>
      missing_in_standings s e \<noteq> {}"
    using messages_differ by (auto simp: mismatch_warnings_def)
  moreover have "\<forall>msg ids. St_warning msg ids \<in> set (mismatch_warnings s e) \<longrightarrow>
      (msg = not_in_entries_message \<and> ids = missing_in_entries s e) \<or>
      (msg = not_in_standings_message \<and> ids = missing_in_standings s e)"
    by (auto simp: mismatch_warnings_def split: if_splits)
  moreover have "\<forall>entries stands. coerce_keys entries stands = Inr (s, e) \<longrightarrow>
      fst (reconcile entries stands) =
        raw_events entries stands @ mismatch_warnings s e @
        empty_errors (valid_standings_df s e) (valid_entries_df s e) @
        fst (merge_section (valid_standings_df s e) (valid_entries_df s e)) \<and>
      snd (reconcile entries stands) =
        snd (merge_section (valid_standings_df s e) (valid_entries_df s e))"
    by (simp add: reconcile_ok)
  ultimately show ?thesis
    by (intro conjI)
qed

theorem mismatch_report_witness:
  "St_warning not_in_entries_message {StrV ''3''} \<in>
     set (mismatch_warnings scenario_standings_df scenario_entries_df) \<and>
   missing_in_entries scenario_standings_df scenario_entries_df = {StrV ''3''} \<and>
   coerce_keys scenario_entries scenario_standings = Inr (scenario_standings_df, scenario_entries_df) \<and>
   snd (reconcile scenario_entries scenario_standings) =
     snd (merge_section (valid_standings_df scenario_standings_df scenario_entries_df)
            (valid_entries_df scenario_standings_df scenario_entries_df))"
proof -
  have w: "St_warning not_in_entries_message {StrV ''3''} \<in>
     set (mismatch_warnings scenario_standings_df scenario_entries_df)"
    by (simp add: mismatch_warnings_def scenario_missing)
  from mismatch_report [of scenario_standings_df scenario_entries_df]
  have "\<forall>entries stands. coerce_keys entries stands = Inr (scenario_standings_df, scenario_entries_df) \<longrightarrow>
      fst (reconcile entries stands) =
        raw_events entries stands @ mismatch_warnings scenario_standings_df scenario_entries_df @
        empty_errors (valid_standings_df scenario_standings_df scenario_entries_df)
          (valid_entries_df scenario_standings_df scenario_entries_df) @
        fst (merge_section (valid_standings_df scenario_standings_df scenario_entries_df)
          (valid_entries_df scenario_standings_df scenario_entries_df)) \<and>
      snd (reconcile entries stands) =
        snd (merge_section (valid_standings_df scenario_standings_df scenario_entries_df)
          (valid_entries_df scenario_standings_df scenario_entries_df))"
    by (elim conjE)
  with scenario_keys have "snd (reconcile scenario_entries scenario_standings) =
     snd (merge_section (valid_standings_df scenario_standings_df scenario_entries_df)
            (valid_entries_df scenario_standings_df scenario_entries_df))"
    by (elim allE impE conjE)
  with w scenario_missing(1) scenario_keys show ?thesis
    by (intro conjI)
qed

subsection \<open>Empty standings\<close>

lemma DataFrame_empty: "DataFrame [] = \<lparr>columns = [], rows = []\<rparr>"
  by (simp add: DataFrame_def first_seen_def)

text \<open>
  C5. With an empty \<^verbatim>\<open>standings\<close> list the frame built on line 36 has no columns, so
  line 45 raises \<^verbatim>\<open>KeyError: 'league_entry'\<close> after the raw tables were shown: the
  script stops there, for any entries, and none of the messages of lines 66, 68 and 78 that
  report an empty result is emitted.
\<close>

theorem empty_standings_raises:
  "reconcile entries [] = (raw_events entries [], Inl (KeyError [''league_entry''])) \<and>
   filter (\<lambda>ev. case ev of St_error m \<Rightarrow> True | _ \<Rightarrow> False) (fst (reconcile entries [])) = []"
  by (simp add: reconcile_def coerce_keys_def assign_column_def getitem_def DataFrame_empty
      raw_events_def)

subsection \<open>Fetching\<close>

text \<open>
  C6. For every league identifier: when the response's status is not 200,
  \<^verbatim>\<open>fetch_data\<close> shows the failure message and returns no data, and the page then
  shows only the header, that message and the request to enter a valid identifier, so
  nothing of lines 27 to 174 runs. When the status is 200 and the body parses,
  \<^verbatim>\<open>fetch_data\<close> returns the parsed body, which the page then processes.
\<close>

theorem fetch_failure_stops:
  "(status_code (requests_get (details_url league_id)) \<noteq> 200 \<longrightarrow>
      fetch_data requests_get league_id = ([St_error fetch_failed_message], Inr None) \<and>
      app requests_get league_id =
        (page_header @ [St_error fetch_failed_message, St_write enter_valid_message], None)) \<and>
   (status_code (requests_get (details_url league_id)) = 200 \<longrightarrow>
      (\<forall>body. json (requests_get (details_url league_id)) = Inr body \<longrightarrow>
         fetch_data requests_get league_id = ([], Inr (Some body)) \<and>
         app requests_get league_id = (page_header @ fst (process body), snd (process body))))"
  by (simp add: fetch_data_def app_def Let_def)

theorem fetch_failure_stops_witness:
  "status_code (not_found_net (details_url ''148968'')) \<noteq> 200 \<and>
   fetch_data not_found_net ''148968'' = ([St_error fetch_failed_message], Inr None) \<and>
   app not_found_net ''148968'' =
     (page_header @ [St_error fetch_failed_message, St_write enter_valid_message], None) \<and>
   status_code (scenario_net (details_url ''148968'')) = 200 \<and>
   json (scenario_net (details_url ''148968'')) = Inr scenario_data \<and>
   fetch_data scenario_net ''148968'' = ([], Inr (Some scenario_data))"
proof -
  have a: "status_code (not_found_net (details_url ''148968'')) \<noteq> 200"
    by (simp add: not_found_net_def)
  have b: "status_code (scenario_net (details_url ''148968'')) = 200"
    "json (scenario_net (details_url ''148968'')) = Inr scenario_data"
    by (simp_all add: scenario_net_def)
  from fetch_failure_stops [of not_found_net "''148968''"] a
  have c: "fetch_data not_found_net ''148968'' = ([St_error fetch_failed_message], Inr None)"
    "app not_found_net ''148968'' =
     (page_header @ [St_error fetch_failed_message, St_write enter_valid_message], None)"
    by simp_all
  from fetch_failure_stops [of scenario_net "''148968''"] b
  have d: "fetch_data scenario_net ''148968'' = ([], Inr (Some scenario_data))"
    by simp
  from a b c d show ?thesis
    by (intro conjI)
qed

subsection \<open>Join keys as strings\<close>

lemma coerced_column:
  assumes "assign_column df key astype_str = Inr df'"
  shows "map (\<lambda>r. cell_of r key) (rows df') = map (\<lambda>r. StrV (py_str (cell_of r key))) (rows df)"
  using assms by (simp add: key_column_Inr cell_of_set_cell_same o_def)

lemma key_column_total:
  assumes "recs \<noteq> []" "\<forall>s \<in> set recs. typed_key (cell_of s key)"
  shows "\<exists>df. assign_column (DataFrame recs) key astype_str = Inr df"
proof -
  from assms(1) obtain s where s: "s \<in> set recs"
    by (cases recs) auto
  with assms(2) have "typed_key (cell_of s key)" by blast
  then have "map_of s key \<noteq> None"
    by (auto simp: cell_of_def split: option.splits)
  then have "key \<in> fst ` set s"
    by (simp add: map_of_eq_None_iff)
  with s have col: "key \<in> set (columns (DataFrame recs))"
    by (auto simp: DataFrame_columns)
  have "typed_key (cell_of r0 key)" if "r0 \<in> set (rows (DataFrame recs))" for r0
    using DataFrame_row [OF that] assms(2) by auto
  then have "list_all (\<lambda>r. typed_key (cell_of r key)) (rows (DataFrame recs))"
    by (simp add: list_all_iff)
  with col show ?thesis
    by (simp add: key_column_Inr)
qed

lemma numbered_keys:
  "coerce_keys numbered_entries scenario_standings = Inr (scenario_standings_df, scenario_entries_df)"
  by code_simp

lemma numbered_reconciled:
  "snd (reconcile numbered_entries scenario_standings) = Inr (Some scenario_merged)"
  by code_simp

lemma scenario_entry_ids: "entries_ids scenario_entries_df = {StrV ''1'', StrV ''2''}"
  by (simp add: entries_ids_def scenario_entries_df_def cell_of_def)

text \<open>
  C7. When lines 45 and 46 succeed, every record had an identifier that is an integer or
  a string, and the key column of each frame holds Python's \<^verbatim>\<open>str\<close> of those
  identifiers: the two identifier sets, the keys the filters test and the keys the merge
  compares are all strings, and everything after line 46 works on these two frames. When
  one of the two lines raises \<^verbatim>\<open>KeyError\<close>, the script stops with the raw tables
  shown and no set operation or merge has taken place. For non-empty inputs in which
  every record has such an identifier the two lines do succeed.
\<close>

theorem join_keys_are_strings:
  "(\<forall>sdf edf. coerce_keys entries stands = Inr (sdf, edf) \<longrightarrow>
      list_all (\<lambda>r. typed_key (cell_of r ''league_entry'')) (rows (DataFrame stands)) \<and>
      list_all (\<lambda>r. typed_key (cell_of r ''id'')) (rows (DataFrame entries)) \<and>
      map (\<lambda>r. cell_of r ''league_entry'') (rows sdf) =
        map (\<lambda>r. StrV (py_str (cell_of r ''league_entry''))) (rows (DataFrame stands)) \<and>
      map (\<lambda>r. cell_of r ''id'') (rows edf) =
        map (\<lambda>r. StrV (py_str (cell_of r ''id''))) (rows (DataFrame entries)) \<and>
      standings_ids sdf \<subseteq> range StrV \<and>
      entries_ids edf \<subseteq> range StrV \<and>
      (\<forall>r \<in> set (rows (valid_standings_df sdf edf)). cell_of r ''league_entry'' \<in> range StrV) \<and>
      (\<forall>r \<in> set (rows (valid_entries_df sdf edf)). cell_of r ''id'' \<in> range StrV) \<and>
      reconcile entries stands =
        (raw_events entries stands @ mismatch_warnings sdf edf @
         empty_errors (valid_standings_df sdf edf) (valid_entries_df sdf edf) @
         fst (merge_section (valid_standings_df sdf edf) (valid_entries_df sdf edf)),
         snd (merge_section (valid_standings_df sdf edf) (valid_entries_df sdf edf)))) \<and>
   (\<forall>cs. coerce_keys entries stands = Inl (KeyError cs) \<longrightarrow>
      reconcile entries stands = (raw_events entries stands, Inl (KeyError cs))) \<and>
   (entries \<noteq> [] \<and> stands \<noteq> [] \<and>
    (\<forall>s \<in> set stands. typed_key (cell_of s ''league_entry'')) \<and>
    (\<forall>e \<in> set entries. typed_key (cell_of e ''id'')) \<longrightarrow>
      (\<exists>sdf edf. coerce_keys entries stands = Inr (sdf, edf)))"
proof (intro conjI allI impI)
  fix sdf edf
  assume ok: "coerce_keys entries stands = Inr (sdf, edf)"
  then have sdf: "assign_column (DataFrame stands) ''league_entry'' astype_str = Inr sdf"
    and edf: "assign_column (DataFrame entries) ''id'' astype_str = Inr edf"
    by (simp_all add: coerce_keys_parts)
  show "list_all (\<lambda>r. typed_key (cell_of r ''league_entry'')) (rows (DataFrame stands))"
    using sdf by (simp add: key_column_Inr)
  show "list_all (\<lambda>r. typed_key (cell_of r ''id'')) (rows (DataFrame entries))"
    using edf by (simp add: key_column_Inr)
  show cs: "map (\<lambda>r. cell_of r ''league_entry'') (rows sdf) =
        map (\<lambda>r. StrV (py_str (cell_of r ''league_entry''))) (rows (DataFrame stands))"
    by (rule coerced_column [OF sdf])
  show ce: "map (\<lambda>r. cell_of r ''id'') (rows edf) =
        map (\<lambda>r. StrV (py_str (cell_of r ''id''))) (rows (DataFrame entries))"
    by (rule coerced_column [OF edf])
  show s: "standings_ids sdf \<subseteq> range StrV"
    unfolding standings_ids_def cs by auto
  show e: "entries_ids edf \<subseteq> range StrV"
    unfolding entries_ids_def ce by auto
  show "\<forall>r \<in> set (rows (valid_standings_df sdf edf)). cell_of r ''league_entry'' \<in> range StrV"
    using e by (auto simp: valid_standings_df_def isin_filter_def)
  show "\<forall>r \<in> set (rows (valid_entries_df sdf edf)). cell_of r ''id'' \<in> range StrV"
    using s by (auto simp: valid_entries_df_def isin_filter_def)
  show "reconcile entries stands =
        (raw_events entries stands @ mismatch_warnings sdf edf @
         empty_errors (valid_standings_df sdf edf) (valid_entries_df sdf edf) @
         fst (merge_section (valid_standings_df sdf edf) (valid_entries_df sdf edf)),
         snd (merge_section (valid_standings_df sdf edf) (valid_entries_df sdf edf)))"
    by (rule reconcile_ok [OF ok])
next
  fix cs
  assume "coerce_keys entries stands = Inl (KeyError cs)"
  then show "reconcile entries stands = (raw_events entries stands, Inl (KeyError cs))"
    by (rule reconcile_raise)
next
  assume typed: "entries \<noteq> [] \<and> stands \<noteq> [] \<and>
    (\<forall>s \<in> set stands. typed_key (cell_of s ''league_entry'')) \<and>
    (\<forall>e \<in> set entries. typed_key (cell_of e ''id''))"
  then obtain sdf where "assign_column (DataFrame stands) ''league_entry'' astype_str = Inr sdf"
    using key_column_total [of stands "''league_entry''"] by blast
  moreover from typed obtain edf where "assign_column (DataFrame entries) ''id'' astype_str = Inr edf"
    using key_column_total [of entries "''id''"] by blast
  ultimately show "\<exists>sdf edf. coerce_keys entries stands = Inr (sdf, edf)"
    by (auto simp: coerce_keys_parts)
qed

theorem join_keys_are_strings_witness:
  "coerce_keys numbered_entries scenario_standings = Inr (scenario_standings_df, scenario_entries_df) \<and>
   standings_ids scenario_standings_df \<subseteq> range StrV \<and>
   entries_ids scenario_entries_df \<subseteq> range StrV \<and>
   entries_ids scenario_entries_df = {StrV ''1'', StrV ''2''} \<and>
   snd (reconcile numbered_entries scenario_standings) = Inr (Some scenario_merged)"
proof -
  from join_keys_are_strings [of numbered_entries scenario_standings]
  have "\<forall>sdf edf. coerce_keys numbered_entries scenario_standings = Inr (sdf, edf) \<longrightarrow>
      list_all (\<lambda>r. typed_key (cell_of r ''league_entry'')) (rows (DataFrame scenario_standings)) \<and>
      list_all (\<lambda>r. typed_key (cell_of r ''id'')) (rows (DataFrame numbered_entries)) \<and>
      map (\<lambda>r. cell_of r ''league_entry'') (rows sdf) =
        map (\<lambda>r. StrV (py_str (cell_of r ''league_entry''))) (rows (DataFrame scenario_standings)) \<and>
      map (\<lambda>r. cell_of r ''id'') (rows edf) =
        map (\<lambda>r. StrV (py_str (cell_of r ''id''))) (rows (DataFrame numbered_entries)) \<and>
      standings_ids sdf \<subseteq> range StrV \<and>
      entries_ids edf \<subseteq> range StrV \<and>
      (\<forall>r \<in> set (rows (valid_standings_df sdf edf)). cell_of r ''league_entry'' \<in> range StrV) \<and>
      (\<forall>r \<in> set (rows (valid_entries_df sdf edf)). cell_of r ''id'' \<in> range StrV) \<and>
      reconcile numbered_entries scenario_standings =
        (raw_events numbered_entries scenario_standings @ mismatch_warnings sdf edf @
         empty_errors (valid_standings_df sdf edf) (valid_entries_df sdf edf) @
         fst (merge_section (valid_standings_df sdf edf) (valid_entries_df sdf edf)),
         snd (merge_section (valid_standings_df sdf edf) (valid_entries_df sdf edf)))"
    by (rule conjunct1)
  note inst = this [rule_format, OF numbered_keys]
  from inst have a: "standings_ids scenario_standings_df \<subseteq> range StrV"
    by (elim conjE)
  from inst have b: "entries_ids scenario_entries_df \<subseteq> range StrV"
    by (elim conjE)
  from numbered_keys a b scenario_entry_ids numbered_reconciled show ?thesis
    by (intro conjI)
qed

subsection \<open>The rows of the table\<close>

lemma merge_section_Some:
  assumes "snd (merge_section vs ve) = Inr (Some m)"
  shows "\<exists>right. getitem_list ve entry_fields = Inr right \<and>
           \<not> df_empty (merge_left vs right ''league_entry'' ''id'') \<and>
           normalize_total (merge_left vs right ''league_entry'' ''id'') = Inr m"
  using assms
  by (auto simp: merge_section_def Let_def split: if_splits sum.splits)

lemma played_reconciled:
  "snd (reconcile numbered_entries played_standings) = Inr (Some played_table)"
  by code_simp

text \<open>
  C8, as the claim states it, fails. The records of this league have the types of the data
  model; the second standing has the total -5, and so has the second row of the table.
\<close>

theorem output_guarantee_counterexample:
  "list_all league_entry_typed numbered_entries \<and>
   list_all standing_typed played_standings \<and>
   snd (reconcile numbered_entries played_standings) = Inr (Some played_table) \<and>
   rows played_table = [played_first, played_second] \<and>
   cell_of played_second ''total'' = IntV (- 5) \<and>
   (- 5 :: int) < 0"
  using played_typed played_reconciled
  by (simp add: played_table_def played_second_def cell_of_def)

text \<open>
  C8, amended. For records of the types of the data model, the table that the reconciler
  produces has at least one row, and every row belongs to one standing and one entry
  with the same identifier: its \<^verbatim>\<open>entry_name\<close>, \<^verbatim>\<open>player_first_name\<close> and
  \<^verbatim>\<open>player_last_name\<close> are those of the entry and are not null, its
  \<^verbatim>\<open>matches_won\<close>, \<^verbatim>\<open>matches_lost\<close> and \<^verbatim>\<open>matches_drawn\<close> are those of the
  standing and are not null, and its total is a number, the numeric coercion of the
  standing's total; that number is negative when the standing's total is negative.
\<close>

theorem reconciled_rows:
  assumes "snd (reconcile entries stands) = Inr (Some merged_df)"
    and "list_all league_entry_typed entries"
    and "list_all standing_typed stands"
  shows "rows merged_df \<noteq> [] \<and>
         (\<forall>row \<in> set (rows merged_df).
            \<exists>s \<in> set stands. \<exists>e \<in> set entries.
              py_str (cell_of s ''league_entry'') = py_str (cell_of e ''id'') \<and>
              cell_of row ''total'' = coerce_total (cell_of s ''total'') \<and>
              is_number (cell_of row ''total'') \<and>
              (\<forall>f \<in> set name_fields. cell_of row f = cell_of e f \<and> populated (cell_of row f)) \<and>
              (\<forall>c \<in> set match_fields. cell_of row c = cell_of s c \<and> populated (cell_of row c)))"
proof -
  from assms(1) obtain sdf edf where ok: "coerce_keys entries stands = Inr (sdf, edf)"
    by (cases "coerce_keys entries stands") (auto simp: reconcile_def)
  let ?vs = "valid_standings_df sdf edf"
  let ?ve = "valid_entries_df sdf edf"
  from assms(1) have "snd (merge_section ?vs ?ve) = Inr (Some merged_df)"
    by (simp add: reconcile_ok [OF ok])
  from merge_section_Some [OF this] obtain right where
    sel: "getitem_list ?ve entry_fields = Inr right"
    and ne: "\<not> df_empty (merge_left ?vs right ''league_entry'' ''id'')"
    and norm: "normalize_total (merge_left ?vs right ''league_entry'' ''id'') = Inr merged_df"
    by blast
  let ?merged = "merge_left ?vs right ''league_entry'' ''id''"
  from norm have rows_m: "rows merged_df =
      map (\<lambda>r. set_cell ''total'' (coerce_total (cell_of r ''total'')) r) (rows ?merged)"
    by (simp add: normalize_total_Inr)
  have first: "rows merged_df \<noteq> []"
    using ne by (simp add: rows_m df_empty_def)
  have free: "\<forall>f \<in> set name_fields. f \<notin> set (columns (DataFrame stands))"
    using no_name_columns [OF assms(3)] by blast
  have each: "\<exists>s \<in> set stands. \<exists>e \<in> set entries.
              py_str (cell_of s ''league_entry'') = py_str (cell_of e ''id'') \<and>
              cell_of row ''total'' = coerce_total (cell_of s ''total'') \<and>
              is_number (cell_of row ''total'') \<and>
              (\<forall>f \<in> set name_fields. cell_of row f = cell_of e f \<and> populated (cell_of row f)) \<and>
              (\<forall>c \<in> set match_fields. cell_of row c = cell_of s c \<and> populated (cell_of row c))"
    if row: "row \<in> set (rows merged_df)" for row
  proof -
    from row obtain row0 where row0: "row0 \<in> set (rows ?merged)"
      and row_eq: "row = set_cell ''total'' (coerce_total (cell_of row0 ''total'')) row0"
      by (auto simp: rows_m)
    from merged_row_sources [OF ok sel row0] obtain s e where
      s: "s \<in> set stands" and e: "e \<in> set entries"
      and same: "py_str (cell_of s ''league_entry'') = py_str (cell_of e ''id'')"
      and total0: "cell_of row0 ''total'' = cell_of s ''total''"
      and counts0: "\<forall>c \<in> set match_fields. cell_of row0 c = cell_of s c"
      and names0: "\<forall>f \<in> set name_fields.
              f \<notin> set (columns (DataFrame stands)) \<longrightarrow> cell_of row0 f = cell_of e f"
      by blast
    note ps = typed_standing [OF assms(3) s]
    note pe = typed_entry [OF assms(2) e]
    have other: "cell_of row c = cell_of row0 c" if "c \<noteq> ''total''" for c
      using that by (simp add: row_eq cell_of_set_cell_other)
    have total: "cell_of row ''total'' = coerce_total (cell_of s ''total'')"
      by (simp add: row_eq cell_of_set_cell_same total0)
    have number: "is_number (cell_of row ''total'')"
      unfolding total by (rule coerce_total_number)
    have names: "\<forall>f \<in> set name_fields. cell_of row f = cell_of e f \<and> populated (cell_of row f)"
    proof
      fix f assume f: "f \<in> set name_fields"
      then have "f \<noteq> ''total''" by (auto simp: name_fields_def)
      with f names0 free pe other [of f]
      show "cell_of row f = cell_of e f \<and> populated (cell_of row f)" by simp
    qed
    have counts: "\<forall>c \<in> set match_fields. cell_of row c = cell_of s c \<and> populated (cell_of row c)"
    proof
      fix c assume c: "c \<in> set match_fields"
      then have "c \<noteq> ''total''" by (auto simp: match_fields_def)
      with c counts0 ps(2) other [of c]
      show "cell_of row c = cell_of s c \<and> populated (cell_of row c)" by simp
    qed
    from s e same total number names counts show ?thesis by blast
  qed
  from first each show ?thesis by blast
qed

theorem reconciled_rows_witness:
  "snd (reconcile numbered_entries played_standings) = Inr (Some played_table) \<and>
   list_all league_entry_typed numbered_entries \<and>
   list_all standing_typed played_standings \<and>
   played_second \<in> set (rows played_table) \<and>
   (\<exists>s \<in> set played_standings. \<exists>e \<in> set numbered_entries.
      py_str (cell_of s ''league_entry'') = py_str (cell_of e ''id'') \<and>
      cell_of played_second ''total'' = coerce_total (cell_of s ''total'') \<and>
      is_number (cell_of played_second ''total'') \<and>
      (\<forall>f \<in> set name_fields.
         cell_of played_second f = cell_of e f \<and> populated (cell_of played_second f)) \<and>
      (\<forall>c \<in> set match_fields.
         cell_of played_second c = cell_of s c \<and> populated (cell_of played_second c)))"
proof -
  have r: "played_second \<in> set (rows played_table)"
    by (simp add: played_table_def)
  from reconciled_rows [OF played_reconciled played_typed]
  have "\<forall>row \<in> set (rows played_table).
    \<exists>s \<in> set played_standings. \<exists>e \<in> set numbered_entries.
      py_str (cell_of s ''league_entry'') = py_str (cell_of e ''id'') \<and>
      cell_of row ''total'' = coerce_total (cell_of s ''total'') \<and>
      is_number (cell_of row ''total'') \<and>
      (\<forall>f \<in> set name_fields. cell_of row f = cell_of e f \<and> populated (cell_of row f)) \<and>
      (\<forall>c \<in> set match_fields. cell_of row c = cell_of s c \<and> populated (cell_of row c))"
    by (rule conjunct2)
  from bspec [OF this r] played_reconciled played_typed r show ?thesis
    by (intro conjI)
qed

subsection \<open>The points leader\<close>

lemma series_max_Max: "xs \<noteq> [] \<Longrightarrow> series_max xs = Some (Max (set xs))"
  by (cases xs) (simp_all add: series_max_def Max.set_eq_fold [symmetric])

lemma argmax_scan_first_max:
  assumes "length pre = i" "best < i" "pre ! best = bv" "bv = Max (set pre)"
    "\<forall>j<best. pre ! j < bv"
  shows "argmax_scan best bv i xs < i + length xs \<and>
         (pre @ xs) ! argmax_scan best bv i xs = Max (set (pre @ xs)) \<and>
         (\<forall>j < argmax_scan best bv i xs. (pre @ xs) ! j < Max (set (pre @ xs)))"
  using assms
proof (induction xs arbitrary: pre i best bv)
  case Nil
  then show ?case by simp
next
  case (Cons x xs)
  have ne: "pre \<noteq> []" using Cons.prems by auto
  then have ins: "Max (set (pre @ [x])) = max x (Max (set pre))"
    by simp
  have app: "(pre @ [x]) @ xs = pre @ x # xs" by simp
  have len: "length (pre @ [x]) = Suc i" using Cons.prems(1) by simp
  show ?case
  proof (cases "bv < x")
    case True
    have m: "x = Max (set (pre @ [x]))"
      unfolding ins using True Cons.prems(4) by simp
    have at: "(pre @ [x]) ! i = x"
      using Cons.prems(1) by auto
    have below: "\<forall>j<i. (pre @ [x]) ! j < x"
    proof (intro allI impI)
      fix j assume "j < i"
      then have "pre ! j \<in> set pre" using Cons.prems(1) by simp
      then have "pre ! j \<le> Max (set pre)" by simp
      with True Cons.prems(4) have "pre ! j < x" by linarith
      with \<open>j < i\<close> Cons.prems(1) show "(pre @ [x]) ! j < x"
        by (simp add: nth_append)
    qed
    from Cons.IH [OF len _ at m below] have
      "argmax_scan i x (Suc i) xs < Suc i + length xs \<and>
       ((pre @ [x]) @ xs) ! argmax_scan i x (Suc i) xs = Max (set ((pre @ [x]) @ xs)) \<and>
       (\<forall>j<argmax_scan i x (Suc i) xs. ((pre @ [x]) @ xs) ! j < Max (set ((pre @ [x]) @ xs)))"
      by simp
    then show ?thesis
      unfolding app using True by simp
  next
    case False
    have m: "bv = Max (set (pre @ [x]))"
      unfolding ins using False Cons.prems(4) by simp
    have below: "\<forall>j<best. (pre @ [x]) ! j < bv"
      using Cons.prems by (simp add: nth_append)
    have at: "(pre @ [x]) ! best = bv"
      using Cons.prems by (simp add: nth_append)
    from Cons.IH [OF len _ at m below] Cons.prems(2) have
      "argmax_scan best bv (Suc i) xs < Suc i + length xs \<and>
       ((pre @ [x]) @ xs) ! argmax_scan best bv (Suc i) xs = Max (set ((pre @ [x]) @ xs)) \<and>
       (\<forall>j<argmax_scan best bv (Suc i) xs. ((pre @ [x]) @ xs) ! j < Max (set ((pre @ [x]) @ xs)))"
      by simp
    then show ?thesis
      unfolding app using False by simp
  qed
qed

lemma idxmax_first_max:
  assumes "xs \<noteq> []"
  shows "\<exists>i. idxmax xs = Some i \<and> i < length xs \<and> xs ! i = Max (set xs) \<and>
             (\<forall>j<i. xs ! j < Max (set xs))"
proof -
  from assms obtain x rest where xs: "xs = x # rest" by (cases xs) auto
  from argmax_scan_first_max [of "[x]" 1 0 x rest]
  show ?thesis by (simp add: xs idxmax_def)
qed


lemma top_scorer_None: "top_scorer m = None \<longleftrightarrow> \<not> leader_guard m"
proof (cases "total_values m = []")
  case True
  then have "rows m = []" by (simp add: total_values_def)
  then show ?thesis by (simp add: top_scorer_def leader_guard_def df_empty_def)
next
  case False
  from idxmax_first_max [OF False] show ?thesis
    by (auto simp: top_scorer_def)
qed

lemma leader_guard_Max:
  "leader_guard m \<longleftrightarrow> \<not> df_empty m \<and> 0 < Max (set (total_values m))"
proof (cases "rows m = []")
  case True
  then show ?thesis by (simp add: leader_guard_def df_empty_def)
next
  case False
  then have "total_values m \<noteq> []" by (simp add: total_values_def)
  then show ?thesis by (simp add: leader_guard_def series_max_Max)
qed





subsection \<open>When a leader is shown\<close>

lemma unscored_reconciled:
  "snd (reconcile numbered_entries unscored_standings) = Inr (Some unscored_table)"
  by code_simp

lemma unscored_values: "total_values unscored_table = [0, 0]"
  by (simp add: total_values_def unscored_table_def cell_of_def)

lemma unscored_shape:
  "\<not> df_empty unscored_table" "integer_totals unscored_table"
  "set shown_fields \<subseteq> set (columns unscored_table)"
  "set match_fields \<subseteq> set (columns unscored_table)"
  by (simp_all add: df_empty_def integer_totals_def unscored_table_def cell_of_def
      shown_fields_def match_fields_def played_columns_def)

lemma charts_without_message:
  "St_write no_leader_message \<notin> set (St_write ''## League Standings'' # St_dataframe shown #
     points_charts @ record_charts)"
  by (simp add: points_charts_def record_charts_def no_leader_message_def)

lemma render_missing_field:
  assumes "getitem_list merged_df shown_fields = Inr shown"
    and "\<not> set match_fields \<subseteq> set (columns merged_df)"
  shows "(\<exists>f \<in> set match_fields. f \<notin> set (columns merged_df) \<and>
            snd (render merged_df) = Some (ChartFieldError f)) \<and>
         set (fst (render merged_df)) \<subseteq>
           set (St_write ''## League Standings'' # St_dataframe shown # points_charts @ record_charts)"
  using assms
  by (auto simp: render_def Let_def match_fields_def record_charts_def)

text \<open>
  C10. For a table that is not empty and whose totals are integers, a leader row is
  selected exactly when the maximum of the totals is greater than 0, and then the metric
  and the player line are shown. When every total is at most 0 (as when all totals were
  non-numeric and became 0) no row is selected, and the leader section consists of the
  message that there is no valid data. The section is reached, and closes what the page
  shows, when the table has the four columns of line 89 and the three match columns of
  the charts; when a match column is absent the script stops at the chart that names it,
  and neither a leader nor the message is shown.
\<close>

theorem leader_only_when_positive:
  assumes "\<not> df_empty merged_df" and "integer_totals merged_df"
  shows "(top_scorer merged_df \<noteq> None \<longleftrightarrow> 0 < Max (set (total_values merged_df))) \<and>
         (top_scorer merged_df = None \<longrightarrow> leader_section merged_df = [St_write no_leader_message]) \<and>
         (\<forall>ts. top_scorer merged_df = Some ts \<longrightarrow>
            leader_section merged_df =
              [St_write ''## Points Leader'', St_metric ''Top Scorer'' (cell_of ts ''total''),
               St_write_player (cell_of ts ''player_first_name'') (cell_of ts ''player_last_name'')]) \<and>
         ((\<forall>t \<in> set (total_values merged_df). t \<le> 0) \<longrightarrow> top_scorer merged_df = None) \<and>
         (\<forall>shown. getitem_list merged_df shown_fields = Inr shown \<longrightarrow>
            set match_fields \<subseteq> set (columns merged_df) \<longrightarrow>
            render merged_df =
              ([St_write ''## League Standings'', St_dataframe shown] @ points_charts @
               record_charts @ leader_section merged_df, None)) \<and>
         (\<forall>shown. getitem_list merged_df shown_fields = Inr shown \<longrightarrow>
            \<not> set match_fields \<subseteq> set (columns merged_df) \<longrightarrow>
            (\<exists>f \<in> set match_fields. f \<notin> set (columns merged_df) \<and>
               snd (render merged_df) = Some (ChartFieldError f)) \<and>
            St_write no_leader_message \<notin> set (fst (render merged_df)))"
proof -
  from assms(1) have ne: "total_values merged_df \<noteq> []"
    by (simp add: df_empty_def total_values_def)
  have a: "top_scorer merged_df \<noteq> None \<longleftrightarrow> 0 < Max (set (total_values merged_df))"
    using assms(1) by (simp add: top_scorer_None leader_guard_Max)
  have b: "top_scorer merged_df = None \<longrightarrow> leader_section merged_df = [St_write no_leader_message]"
    by (simp add: leader_section_def)
  have b': "\<forall>ts. top_scorer merged_df = Some ts \<longrightarrow>
            leader_section merged_df =
              [St_write ''## Points Leader'', St_metric ''Top Scorer'' (cell_of ts ''total''),
               St_write_player (cell_of ts ''player_first_name'') (cell_of ts ''player_last_name'')]"
    by (simp add: leader_section_def)
  have c: "(\<forall>t \<in> set (total_values merged_df). t \<le> 0) \<longrightarrow> top_scorer merged_df = None"
  proof
    assume all: "\<forall>t \<in> set (total_values merged_df). t \<le> 0"
    from ne have "Max (set (total_values merged_df)) \<in> set (total_values merged_df)"
      by (intro Max_in) simp_all
    with all have "Max (set (total_values merged_df)) \<le> 0" by blast
    with a show "top_scorer merged_df = None" by auto
  qed
  have d: "\<forall>shown. getitem_list merged_df shown_fields = Inr shown \<longrightarrow>
            set match_fields \<subseteq> set (columns merged_df) \<longrightarrow>
            render merged_df =
              ([St_write ''## League Standings'', St_dataframe shown] @ points_charts @
               record_charts @ leader_section merged_df, None)"
    using assms(2) by (simp add: render_def match_fields_def)
  have e: "\<forall>shown. getitem_list merged_df shown_fields = Inr shown \<longrightarrow>
            \<not> set match_fields \<subseteq> set (columns merged_df) \<longrightarrow>
            (\<exists>f \<in> set match_fields. f \<notin> set (columns merged_df) \<and>
               snd (render merged_df) = Some (ChartFieldError f)) \<and>
            St_write no_leader_message \<notin> set (fst (render merged_df))"
  proof (intro allI impI)
    fix shown
    assume sel: "getitem_list merged_df shown_fields = Inr shown"
      and missing: "\<not> set match_fields \<subseteq> set (columns merged_df)"
    from render_missing_field [OF sel missing] charts_without_message [of shown]
    show "(\<exists>f \<in> set match_fields. f \<notin> set (columns merged_df) \<and>
               snd (render merged_df) = Some (ChartFieldError f)) \<and>
            St_write no_leader_message \<notin> set (fst (render merged_df))"
      by blast
  qed
  from a b b' c d e show ?thesis by (intro conjI)
qed

theorem leader_only_when_positive_witness:
  "snd (reconcile numbered_entries unscored_standings) = Inr (Some unscored_table) \<and>
   \<not> df_empty unscored_table \<and>
   integer_totals unscored_table \<and>
   total_values unscored_table = [0, 0] \<and>
   top_scorer unscored_table = None \<and>
   leader_section unscored_table = [St_write no_leader_message] \<and>
   snd (render unscored_table) = None \<and>
   last (fst (render unscored_table)) = St_write no_leader_message"
proof -
  note shape = unscored_shape
  note all = leader_only_when_positive [OF shape(1) shape(2)]
  from all unscored_values have none: "top_scorer unscored_table = None"
    by simp
  from all none have msg: "leader_section unscored_table = [St_write no_leader_message]"
    by (elim conjE) simp
  from shape(3) obtain shown where sel: "getitem_list unscored_table shown_fields = Inr shown"
    by (simp add: getitem_list_Inr)
  from all have "\<forall>shown. getitem_list unscored_table shown_fields = Inr shown \<longrightarrow>
            set match_fields \<subseteq> set (columns unscored_table) \<longrightarrow>
            render unscored_table =
              ([St_write ''## League Standings'', St_dataframe shown] @ points_charts @
               record_charts @ leader_section unscored_table, None)"
    by (elim conjE)
  from this [rule_format, OF sel shape(4)]
  have shown: "snd (render unscored_table) = None"
    "last (fst (render unscored_table)) = St_write no_leader_message"
    by (simp_all add: msg)
  from unscored_reconciled shape(1) shape(2) unscored_values none msg shown show ?thesis
    by (intro conjI)
qed

end
